theory Spec2Isabelle
  imports Complex_Main
begin

section \<open>JavaScript values\<close>

text \<open>
  A JavaScript number: the finite doubles are rationals (every finite double is one), next
  to NaN and the two infinities. The sign of zero is not kept: the only place of the
  client that prints a number prints \<open>0\<close> for both zeros.
\<close>

datatype jsnum = Finite rat | NaN | PosInfinity | NegInfinity

text \<open>\<open>Math.round\<close>: the integer closest to the argument, ties towards \<open>+\<infinity>\<close>.\<close>

fun Math_round :: "jsnum \<Rightarrow> jsnum" where
  "Math_round (Finite x) = Finite (of_int \<lfloor>x + 1 / 2\<rfloor>)"
| "Math_round NaN = NaN"
| "Math_round PosInfinity = PosInfinity"
| "Math_round NegInfinity = NegInfinity"

text \<open>\<open>Math.min\<close> and \<open>Math.max\<close> of two arguments: NaN if either is NaN.\<close>

fun Math_min :: "jsnum \<Rightarrow> jsnum \<Rightarrow> jsnum" where
  "Math_min NaN y = NaN"
| "Math_min x NaN = NaN"
| "Math_min NegInfinity y = NegInfinity"
| "Math_min x NegInfinity = NegInfinity"
| "Math_min PosInfinity y = y"
| "Math_min x PosInfinity = x"
| "Math_min (Finite x) (Finite y) = Finite (min x y)"

fun Math_max :: "jsnum \<Rightarrow> jsnum \<Rightarrow> jsnum" where
  "Math_max NaN y = NaN"
| "Math_max x NaN = NaN"
| "Math_max PosInfinity y = PosInfinity"
| "Math_max x PosInfinity = PosInfinity"
| "Math_max NegInfinity y = y"
| "Math_max x NegInfinity = x"
| "Math_max (Finite x) (Finite y) = Finite (max x y)"

text \<open>Decimal digits of a natural number, as \<open>Number.prototype.toString\<close> writes them.\<close>

definition digitChar :: "nat \<Rightarrow> char" where
  "digitChar d = ''0123456789'' ! d"

fun showNat :: "nat \<Rightarrow> string" where
  "showNat n = (if n < 10 then [digitChar n] else showNat (n div 10) @ [digitChar (n mod 10)])"

declare showNat.simps [simp del]

definition showInt :: "int \<Rightarrow> string" where
  "showInt i = (if i < 0 then CHR ''-'' # showNat (nat (- i)) else showNat (nat i))"

text \<open>
  The string a template literal puts in for a number. The client only prints the result of
  \<open>Math.round\<close> (an integer, NaN or an infinity); integers below \<open>10\<^sup>2\<^sup>1\<close> in magnitude are
  printed in plain decimal notation, which is what the finite case writes.
\<close>

fun numToString :: "jsnum \<Rightarrow> string" where
  "numToString NaN = ''NaN''"
| "numToString PosInfinity = ''Infinity''"
| "numToString NegInfinity = ''-Infinity''"
| "numToString (Finite x) = showInt \<lfloor>x\<rfloor>"

text \<open>
  The objects \<open>xml2js\<close> hands to the client (and takes from it): strings, objects with
  string keys in insertion order, arrays, and the two empty values.
\<close>

datatype jsval =
    JUndefined
  | JNull
  | JString string
  | JObject "(string \<times> jsval) list"
  | JArray "jsval list"

datatype error =
    HttpError nat string
  | SocketError string
  | RequestTimeout
  | ParseError string
  | TypeError

text \<open>Reading a property: a TypeError on \<open>undefined\<close> and \<open>null\<close>, \<open>undefined\<close>
  where the property does not exist. None of the names the client reads is a property of
  a string or of an array.\<close>

fun getProp :: "jsval \<Rightarrow> string \<Rightarrow> error + jsval" where
  "getProp JUndefined k = Inl TypeError"
| "getProp JNull k = Inl TypeError"
| "getProp (JString s) k = Inr JUndefined"
| "getProp (JArray xs) k = Inr JUndefined"
| "getProp (JObject kvs) k = (case map_of kvs k of Some v \<Rightarrow> Inr v | None \<Rightarrow> Inr JUndefined)"

text \<open>Optional chaining \<open>v?.k\<close>.\<close>

fun getPropOpt :: "jsval \<Rightarrow> string \<Rightarrow> jsval" where
  "getPropOpt (JObject kvs) k = (case map_of kvs k of Some v \<Rightarrow> v | None \<Rightarrow> JUndefined)"
| "getPropOpt v k = JUndefined"

fun truthy :: "jsval \<Rightarrow> bool" where
  "truthy JUndefined = False"
| "truthy JNull = False"
| "truthy (JString s) = (s \<noteq> [])"
| "truthy (JObject kvs) = True"
| "truthy (JArray xs) = True"

definition ebind :: "error + 'a \<Rightarrow> ('a \<Rightarrow> error + 'b) \<Rightarrow> error + 'b" where
  "ebind r f = (case r of Inl e \<Rightarrow> Inl e | Inr x \<Rightarrow> f x)"

text \<open>\<open>ToString\<close> of a value, as \<open>parseInt\<close> applies it to its argument.\<close>

fun joinComma :: "string list \<Rightarrow> string" where
  "joinComma [] = []"
| "joinComma [s] = s"
| "joinComma (s # t # ss) = s @ '','' @ joinComma (t # ss)"

fun jsToString :: "jsval \<Rightarrow> string" where
  "jsToString JUndefined = ''undefined''"
| "jsToString JNull = ''null''"
| "jsToString (JString s) = s"
| "jsToString (JObject kvs) = ''[object Object]''"
| "jsToString (JArray xs) =
     joinComma (map (\<lambda>x. if x = JUndefined \<or> x = JNull then [] else jsToString x) xs)"

text \<open>
  \<open>parseInt(v, 10)\<close>: leading white space, an optional sign, then the longest run of decimal
  digits; NaN when there is no digit. (The white space is the ASCII one; the value is exact,
  where a double rounds above \<open>2\<^sup>5\<^sup>3\<close>.)
\<close>

definition isWhiteSpace :: "char \<Rightarrow> bool" where
  "isWhiteSpace c = (c \<in> set [CHR '' '', CHR 0x09, CHR 0x0A, CHR 0x0B, CHR 0x0C, CHR 0x0D])"

definition isDigit :: "char \<Rightarrow> bool" where
  "isDigit c = (c \<in> set ''0123456789'')"

definition digitsValue :: "string \<Rightarrow> nat" where
  "digitsValue ds = foldl (\<lambda>acc c. 10 * acc + (of_char c - 48)) 0 ds"

definition parseInt :: "jsval \<Rightarrow> jsnum" where
  "parseInt v =
     (let t = dropWhile isWhiteSpace (jsToString v);
          neg = (case t of c # r \<Rightarrow> c = CHR ''-'' | [] \<Rightarrow> False);
          u = (case t of c # r \<Rightarrow> if c = CHR ''-'' \<or> c = CHR ''+'' then r else t | [] \<Rightarrow> []);
          ds = takeWhile isDigit u
      in if ds = [] then NaN
         else Finite (of_int ((if neg then - 1 else 1) * int (digitsValue ds))))"

text \<open>\<open>Array.isArray(v) ? v : [v]\<close>.\<close>

fun asArray :: "jsval \<Rightarrow> jsval list" where
  "asArray (JArray xs) = xs"
| "asArray v = [v]"

text \<open>A \<open>map\<close> or a \<open>for\<close> loop whose body may throw: the first throw ends it.\<close>

fun mapE :: "('a \<Rightarrow> error + 'b) \<Rightarrow> 'a list \<Rightarrow> error + 'b list" where
  "mapE f [] = Inr []"
| "mapE f (x # xs) = ebind (f x) (\<lambda>y. ebind (mapE f xs) (\<lambda>ys. Inr (y # ys)))"

text \<open>The picture address of a \<open>now playing\<close> element: the element's text, with or
  without attributes beside it.\<close>

definition artUrlOf :: "jsval \<Rightarrow> jsval" where
  "artUrlOf art =
     (if truthy art then
        (case art of
           JString s \<Rightarrow> art
         | _ \<Rightarrow> if truthy (getPropOpt art ''_'') then getPropOpt art ''_'' else JUndefined)
      else JUndefined)"

section \<open>ProtocolClient\<close>

datatype httpMethod = GET | POST

record httpRequest =
  reqMethod :: httpMethod
  reqPath :: string
  reqBody :: "string option"

text \<open>What \<open>http.request\<close> comes back with: a response with its status code and body, an
  \<open>error\<close> event, or a \<open>timeout\<close> event.\<close>

datatype httpOutcome = Response nat string | NetError string | Timeout

text \<open>
  The surroundings of a client: the device behind the HTTP port, a deterministic machine with
  a state of its own, and the two entry points of \<open>xml2js\<close>, which is not part of the
  repository.
\<close>

record 'd env =
  transport :: "httpRequest \<Rightarrow> 'd \<Rightarrow> httpOutcome \<times> 'd"
  parseStringPromise :: "string \<Rightarrow> error + jsval"
  buildObject :: "jsval \<Rightarrow> string"

text \<open>A call runs on the device state and the list of the requests issued so far, and
  resolves (\<open>Inr\<close>) or rejects (\<open>Inl\<close>).\<close>

type_synonym 'd st = "'d \<times> httpRequest list"
type_synonym ('a, 'd) io = "'d st \<Rightarrow> (error + 'a) \<times> 'd st"

definition returnS :: "'a \<Rightarrow> ('a, 'd) io" where
  "returnS x = (\<lambda>s. (Inr x, s))"

definition liftE :: "error + 'a \<Rightarrow> ('a, 'd) io" where
  "liftE r = (\<lambda>s. (r, s))"

text \<open>\<open>await m\<close>, then the rest: a rejection of \<open>m\<close> ends the call.\<close>

definition bindS :: "('a, 'd) io \<Rightarrow> ('a \<Rightarrow> ('b, 'd) io) \<Rightarrow> ('b, 'd) io" where
  "bindS m f = (\<lambda>s. case m s of (Inl e, s') \<Rightarrow> (Inl e, s') | (Inr x, s') \<Rightarrow> f x s')"

text \<open>One HTTP exchange. A body that is the empty string is not written, as if there
  were none; a status outside \<open>200..299\<close> rejects, as do \<open>error\<close> and \<open>timeout\<close>.\<close>

definition request :: "'d env \<Rightarrow> httpMethod \<Rightarrow> string \<Rightarrow> string option \<Rightarrow> (string, 'd) io" where
  "request E m p body = (\<lambda>(d, issued).
     let rq = \<lparr>reqMethod = m, reqPath = p,
                reqBody = (case body of None \<Rightarrow> None | Some b \<Rightarrow> if b = [] then None else Some b)\<rparr>;
         (out, d') = transport E rq d
     in ((case out of
            Response statusCode data \<Rightarrow>
              if statusCode \<noteq> 0 \<and> 200 \<le> statusCode \<and> statusCode < 300 then Inr data
              else Inl (HttpError statusCode data)
          | NetError msg \<Rightarrow> Inl (SocketError msg)
          | Timeout \<Rightarrow> Inl RequestTimeout),
         (d', issued @ [rq])))"

definition get :: "'d env \<Rightarrow> string \<Rightarrow> (jsval, 'd) io" where
  "get E p = bindS (request E GET p None) (\<lambda>xml. liftE (parseStringPromise E xml))"

definition post :: "'d env \<Rightarrow> string \<Rightarrow> string \<Rightarrow> (jsval, 'd) io" where
  "post E p body = bindS (request E POST p (Some body)) (\<lambda>xml. liftE (parseStringPromise E xml))"

definition volumeXml :: "jsnum \<Rightarrow> string" where
  "volumeXml level =
     ''<volume>'' @ numToString (Math_max (Finite 0) (Math_min (Finite 100) (Math_round level)))
       @ ''</volume>''"

definition setVolume :: "'d env \<Rightarrow> jsnum \<Rightarrow> (unit, 'd) io" where
  "setVolume E level = (let xml = volumeXml level in bindS (post E ''/volume'' xml) (\<lambda>_. returnS ()))"

record volume =
  targetvolume :: jsnum
  actualvolume :: jsnum
  muteenabled :: bool

definition getVolume :: "'d env \<Rightarrow> (volume, 'd) io" where
  "getVolume E = bindS (get E ''/volume'') (\<lambda>result. liftE (
     ebind (getProp result ''volume'') (\<lambda>vol.
     ebind (getProp vol ''targetvolume'') (\<lambda>tv.
     ebind (getProp vol ''actualvolume'') (\<lambda>av.
     ebind (getProp vol ''muteenabled'') (\<lambda>me.
     Inr \<lparr>targetvolume = parseInt tv, actualvolume = parseInt av,
          muteenabled = (me = JString ''true'')\<rparr>))))))"

datatype KeyValue =
    PLAY | PAUSE | PLAY_PAUSE | STOP
  | PREV_TRACK | NEXT_TRACK
  | THUMBS_UP | THUMBS_DOWN | BOOKMARK
  | POWER | MUTE
  | VOLUME_UP | VOLUME_DOWN
  | PRESET_1 | PRESET_2 | PRESET_3 | PRESET_4 | PRESET_5 | PRESET_6
  | AUX_INPUT | SHUFFLE_OFF | SHUFFLE_ON
  | REPEAT_OFF | REPEAT_ONE | REPEAT_ALL
  | ADD_FAVORITE | REMOVE_FAVORITE

fun keyString :: "KeyValue \<Rightarrow> string" where
  "keyString PLAY = ''PLAY''"
| "keyString PAUSE = ''PAUSE''"
| "keyString PLAY_PAUSE = ''PLAY_PAUSE''"
| "keyString STOP = ''STOP''"
| "keyString PREV_TRACK = ''PREV_TRACK''"
| "keyString NEXT_TRACK = ''NEXT_TRACK''"
| "keyString THUMBS_UP = ''THUMBS_UP''"
| "keyString THUMBS_DOWN = ''THUMBS_DOWN''"
| "keyString BOOKMARK = ''BOOKMARK''"
| "keyString POWER = ''POWER''"
| "keyString MUTE = ''MUTE''"
| "keyString VOLUME_UP = ''VOLUME_UP''"
| "keyString VOLUME_DOWN = ''VOLUME_DOWN''"
| "keyString PRESET_1 = ''PRESET_1''"
| "keyString PRESET_2 = ''PRESET_2''"
| "keyString PRESET_3 = ''PRESET_3''"
| "keyString PRESET_4 = ''PRESET_4''"
| "keyString PRESET_5 = ''PRESET_5''"
| "keyString PRESET_6 = ''PRESET_6''"
| "keyString AUX_INPUT = ''AUX_INPUT''"
| "keyString SHUFFLE_OFF = ''SHUFFLE_OFF''"
| "keyString SHUFFLE_ON = ''SHUFFLE_ON''"
| "keyString REPEAT_OFF = ''REPEAT_OFF''"
| "keyString REPEAT_ONE = ''REPEAT_ONE''"
| "keyString REPEAT_ALL = ''REPEAT_ALL''"
| "keyString ADD_FAVORITE = ''ADD_FAVORITE''"
| "keyString REMOVE_FAVORITE = ''REMOVE_FAVORITE''"

definition pressXml :: "KeyValue \<Rightarrow> string" where
  "pressXml key = ''<key state=\"press\" sender=\"Gabbo\">'' @ keyString key @ ''</key>''"

definition releaseXml :: "KeyValue \<Rightarrow> string" where
  "releaseXml key = ''<key state=\"release\" sender=\"Gabbo\">'' @ keyString key @ ''</key>''"

definition pressKey :: "'d env \<Rightarrow> KeyValue \<Rightarrow> (unit, 'd) io" where
  "pressKey E key =
     bindS (post E ''/key'' (pressXml key)) (\<lambda>_.
     bindS (post E ''/key'' (releaseXml key)) (\<lambda>_. returnS ()))"

definition mute :: "'d env \<Rightarrow> (unit, 'd) io" where
  "mute E = bindS (pressKey E MUTE) (\<lambda>_. returnS ())"

definition setMute :: "'d env \<Rightarrow> bool \<Rightarrow> (unit, 'd) io" where
  "setMute E muted =
     bindS (getVolume E) (\<lambda>volume.
       if muteenabled volume \<noteq> muted then bindS (mute E) (\<lambda>_. returnS ()) else returnS ())"

text \<open>A content item as the decoders build it: each field holds whatever the parsed
  document has at that place, \<open>undefined\<close> when it has nothing.\<close>

record contentItem =
  ciSource :: jsval
  ciType :: jsval
  ciLocation :: jsval
  ciSourceAccount :: jsval
  ciIsPresetable :: bool
  ciName :: jsval

text \<open>The object literal that \<open>getNowPlaying\<close> and \<open>getPresets\<close> both build from a
  \<open>ContentItem\<close> element.\<close>

definition decodeContentItem :: "jsval \<Rightarrow> error + contentItem" where
  "decodeContentItem ci =
     ebind (getProp ci ''$'') (\<lambda>attrs.
     ebind (getProp attrs ''source'') (\<lambda>src.
     ebind (getProp attrs ''type'') (\<lambda>ty.
     ebind (getProp attrs ''location'') (\<lambda>loc.
     ebind (getProp attrs ''sourceAccount'') (\<lambda>acct.
     ebind (getProp attrs ''isPresetable'') (\<lambda>pres.
     ebind (getProp ci ''itemName'') (\<lambda>nm.
     Inr \<lparr>ciSource = src, ciType = ty, ciLocation = loc, ciSourceAccount = acct,
          ciIsPresetable = (pres = JString ''true''), ciName = nm\<rparr>)))))))"

record nowPlaying =
  npSource :: jsval
  npSourceAccount :: jsval
  npContentItem :: "contentItem option"
  npTrack :: jsval
  npArtist :: jsval
  npAlbum :: jsval
  npStationName :: jsval
  npArt :: jsval
  npPlayStatus :: jsval
  npShuffleSetting :: jsval
  npRepeatSetting :: jsval
  npStreamType :: jsval
  npTrackID :: jsval

definition getNowPlaying :: "'d env \<Rightarrow> (nowPlaying, 'd) io" where
  "getNowPlaying E = bindS (get E ''/now_playing'') (\<lambda>result. liftE (
     ebind (getProp result ''nowPlaying'') (\<lambda>np.
     ebind (getProp np ''ContentItem'') (\<lambda>ci.
     ebind (if truthy ci then ebind (decodeContentItem ci) (\<lambda>c. Inr (Some c)) else Inr None)
       (\<lambda>contentItem.
     ebind (getProp np ''art'') (\<lambda>art.
     ebind (getProp np ''$'') (\<lambda>attrs.
     ebind (getProp attrs ''source'') (\<lambda>src.
     ebind (getProp attrs ''sourceAccount'') (\<lambda>acct.
     Inr \<lparr>npSource = src, npSourceAccount = acct, npContentItem = contentItem,
          npTrack = getPropOpt np ''track'', npArtist = getPropOpt np ''artist'',
          npAlbum = getPropOpt np ''album'', npStationName = getPropOpt np ''stationName'',
          npArt = artUrlOf art,
          npPlayStatus = getPropOpt np ''playStatus'',
          npShuffleSetting = getPropOpt np ''shuffleSetting'',
          npRepeatSetting = getPropOpt np ''repeatSetting'',
          npStreamType = getPropOpt np ''streamType'',
          npTrackID = getPropOpt np ''trackID''\<rparr>)))))))))"

record preset =
  presetId :: jsnum
  presetContentItem :: contentItem

definition getPresets :: "'d env \<Rightarrow> (preset list, 'd) io" where
  "getPresets E = bindS (get E ''/presets'') (\<lambda>result. liftE (
     ebind (getProp result ''presets'') (\<lambda>ps.
     ebind (getProp ps ''preset'') (\<lambda>pr.
     if \<not> truthy pr then Inr []
     else mapE (\<lambda>p.
            ebind (getProp p ''$'') (\<lambda>attrs.
            ebind (getProp attrs ''id'') (\<lambda>i.
            ebind (getProp p ''ContentItem'') (\<lambda>ci.
            ebind (decodeContentItem ci) (\<lambda>c.
            Inr \<lparr>presetId = parseInt i, presetContentItem = c\<rparr>)))))
          (asArray pr)))))"

record sourceItem =
  srcSource :: jsval
  srcSourceAccount :: jsval
  srcStatus :: jsval
  srcIsLocal :: bool
  srcMultiroomAllowed :: bool

definition getSources :: "'d env \<Rightarrow> (sourceItem list, 'd) io" where
  "getSources E = bindS (get E ''/sources'') (\<lambda>result. liftE (
     ebind (getProp result ''sources'') (\<lambda>ss.
     ebind (getProp ss ''sourceItem'') (\<lambda>si.
     if \<not> truthy si then Inr []
     else mapE (\<lambda>s.
            ebind (getProp s ''$'') (\<lambda>attrs.
            ebind (getProp attrs ''source'') (\<lambda>src.
            ebind (getProp attrs ''sourceAccount'') (\<lambda>acct.
            ebind (getProp attrs ''status'') (\<lambda>status.
            ebind (getProp attrs ''isLocal'') (\<lambda>loc.
            ebind (getProp attrs ''multiroomallowed'') (\<lambda>multi.
            Inr \<lparr>srcSource = src, srcSourceAccount = acct, srcStatus = status,
                 srcIsLocal = (loc = JString ''true''),
                 srcMultiroomAllowed = (multi = JString ''true'')\<rparr>)))))))
          (asArray si)))))"

text \<open>The object \<open>playContent\<close> hands to the XML builder. The two last parameters are
  optional and default to the empty string.\<close>

definition contentObj :: "string \<Rightarrow> string \<Rightarrow> string option \<Rightarrow> string option \<Rightarrow> jsval" where
  "contentObj source location sourceAccount name =
     (let sourceAccount' = (case sourceAccount of None \<Rightarrow> [] | Some a \<Rightarrow> a);
          name' = (case name of None \<Rightarrow> [] | Some n \<Rightarrow> n)
      in JObject [(''ContentItem'', JObject (
           [(''$'', JObject [(''source'', JString source), (''location'', JString location),
                            (''sourceAccount'', JString sourceAccount'),
                            (''isPresetable'', JString ''true'')])]
           @ (if name' \<noteq> [] then [(''itemName'', JString name')] else [])))])"

definition playContent ::
    "'d env \<Rightarrow> string \<Rightarrow> string \<Rightarrow> string option \<Rightarrow> string option \<Rightarrow> (unit, 'd) io" where
  "playContent E source location sourceAccount name =
     (let xml = buildObject E (contentObj source location sourceAccount name)
      in bindS (post E ''/select'' xml) (\<lambda>_. returnS ()))"


section \<open>EventStream\<close>

subsection \<open>Decoding of push frames\<close>

record volumeUpdate =
  vuTargetvolume :: jsnum
  vuActualvolume :: jsnum
  vuMuteenabled :: bool

record nowPlayingUpdate =
  nuSource :: jsval
  nuSourceAccount :: jsval
  nuTrack :: jsval
  nuArtist :: jsval
  nuAlbum :: jsval
  nuStationName :: jsval
  nuArt :: jsval
  nuPlayStatus :: jsval
  nuShuffleSetting :: jsval
  nuRepeatSetting :: jsval

record presetEntry =
  peId :: jsnum
  peName :: jsval
  peSource :: jsval

record zoneMemberUpdate =
  zmIpaddress :: jsval
  zmMacaddress :: jsval

record zoneUpdate =
  zuMaster :: jsval
  zuMembers :: "zoneMemberUpdate list"

record bassUpdate =
  buTargetbass :: jsnum
  buActualbass :: jsnum

record connectionStateUpdate =
  csState :: jsval
  csUp :: bool

text \<open>What the stream emits to its listeners.\<close>

datatype wsEvent =
    VolumeUpdated volumeUpdate
  | NowPlayingUpdated nowPlayingUpdate
  | PresetUpdated "presetEntry list"
  | ZoneUpdated zoneUpdate
  | BassUpdated bassUpdate
  | ConnectionStateUpdated connectionStateUpdate
  | ErrorEvent
  | ConnectedEvent
  | DisconnectedEvent

definition nullish :: "jsval \<Rightarrow> bool" where
  "nullish v = (v = JUndefined \<or> v = JNull)"

text \<open>
  The six blocks of \<open>handleMessage\<close>, in the order of the source. Each one looks for its
  element under \<open>updates\<close> and, when it is there, decodes it and emits one event as its
  last step: a block gives the events it emits, or the exception it throws before emitting.
\<close>

definition volumeBlock :: "jsval \<Rightarrow> error + wsEvent list" where
  "volumeBlock updates =
     ebind (getProp updates ''volumeUpdated'') (\<lambda>vu.
     if truthy vu then
       ebind (getProp vu ''volume'') (\<lambda>vol.
       ebind (getProp vol ''targetvolume'') (\<lambda>tv.
       ebind (getProp vol ''actualvolume'') (\<lambda>av.
       ebind (getProp vol ''muteenabled'') (\<lambda>me.
       Inr [VolumeUpdated \<lparr>vuTargetvolume = parseInt tv, vuActualvolume = parseInt av,
                            vuMuteenabled = (me = JString ''true'')\<rparr>]))))
     else Inr [])"

definition nowPlayingBlock :: "jsval \<Rightarrow> error + wsEvent list" where
  "nowPlayingBlock updates =
     ebind (getProp updates ''nowPlayingUpdated'') (\<lambda>nu.
     if truthy nu then
       ebind (getProp nu ''nowPlaying'') (\<lambda>np.
       ebind (getProp np ''art'') (\<lambda>art.
       ebind (getProp np ''$'') (\<lambda>attrs.
       ebind (getProp attrs ''source'') (\<lambda>src.
       ebind (getProp attrs ''sourceAccount'') (\<lambda>acct.
       Inr [NowPlayingUpdated
              \<lparr>nuSource = src, nuSourceAccount = acct,
               nuTrack = getPropOpt np ''track'', nuArtist = getPropOpt np ''artist'',
               nuAlbum = getPropOpt np ''album'', nuStationName = getPropOpt np ''stationName'',
               nuArt = artUrlOf art,
               nuPlayStatus = getPropOpt np ''playStatus'',
               nuShuffleSetting = getPropOpt np ''shuffleSetting'',
               nuRepeatSetting = getPropOpt np ''repeatSetting''\<rparr>])))))
     else Inr [])"

definition presetsBlock :: "jsval \<Rightarrow> error + wsEvent list" where
  "presetsBlock updates =
     ebind (getProp updates ''presetsUpdated'') (\<lambda>pu.
     if truthy pu then
       ebind (getProp pu ''presets'') (\<lambda>presets.
       ebind (getProp presets ''preset'') (\<lambda>pr.
       ebind (if truthy pr then
                mapE (\<lambda>p.
                  ebind (getProp p ''$'') (\<lambda>attrs.
                  ebind (getProp attrs ''id'') (\<lambda>i.
                  ebind (getProp p ''ContentItem'') (\<lambda>ci.
                  ebind (if nullish ci then Inr JUndefined
                         else ebind (getProp ci ''$'') (\<lambda>ciAttrs. getProp ciAttrs ''source''))
                    (\<lambda>src.
                  Inr \<lparr>peId = parseInt i, peName = getPropOpt ci ''itemName'', peSource = src\<rparr>)))))
                  (asArray pr)
              else Inr [])
         (\<lambda>presetList. Inr [PresetUpdated presetList])))
     else Inr [])"

definition zoneBlock :: "jsval \<Rightarrow> error + wsEvent list" where
  "zoneBlock updates =
     ebind (getProp updates ''zoneUpdated'') (\<lambda>zu.
     if truthy zu then
       ebind (getProp zu ''zone'') (\<lambda>zone.
       ebind (if truthy (getPropOpt zone ''member'') then
                mapE (\<lambda>m.
                  ebind (getProp m ''$'') (\<lambda>attrs.
                  ebind (getProp attrs ''ipaddress'') (\<lambda>ip.
                  Inr \<lparr>zmIpaddress = ip, zmMacaddress = getPropOpt m ''_''\<rparr>)))
                  (asArray (getPropOpt zone ''member''))
              else Inr [])
         (\<lambda>members.
       ebind (if nullish zone then Inr JUndefined
              else ebind (getProp zone ''$'') (\<lambda>attrs. getProp attrs ''master''))
         (\<lambda>master.
       Inr [ZoneUpdated \<lparr>zuMaster = master, zuMembers = members\<rparr>])))
     else Inr [])"

definition bassBlock :: "jsval \<Rightarrow> error + wsEvent list" where
  "bassBlock updates =
     ebind (getProp updates ''bassUpdated'') (\<lambda>bu.
     if truthy bu then
       ebind (getProp bu ''bass'') (\<lambda>bass.
       ebind (getProp bass ''targetbass'') (\<lambda>tb.
       ebind (getProp bass ''actualbass'') (\<lambda>ab.
       Inr [BassUpdated \<lparr>buTargetbass = parseInt tb, buActualbass = parseInt ab\<rparr>])))
     else Inr [])"

definition connectionStateBlock :: "jsval \<Rightarrow> error + wsEvent list" where
  "connectionStateBlock updates =
     ebind (getProp updates ''connectionStateUpdated'') (\<lambda>state.
     if truthy state then
       ebind (getProp state ''$'') (\<lambda>attrs.
       ebind (getProp attrs ''state'') (\<lambda>st.
       ebind (getProp attrs ''up'') (\<lambda>up.
       Inr [ConnectionStateUpdated \<lparr>csState = st, csUp = (up = JString ''true'')\<rparr>])))
     else Inr [])"

text \<open>The blocks run one after the other inside one \<open>try\<close>: the first exception ends
  the handler, and what was emitted before it stays emitted.\<close>

fun runBlocks :: "(jsval \<Rightarrow> error + wsEvent list) list \<Rightarrow> jsval \<Rightarrow> wsEvent list" where
  "runBlocks [] updates = []"
| "runBlocks (b # bs) updates =
     (case b updates of Inl e \<Rightarrow> [] | Inr evs \<Rightarrow> evs @ runBlocks bs updates)"

text \<open>The events one inbound frame makes the handler emit.\<close>

definition handleMessage :: "'d env \<Rightarrow> string \<Rightarrow> wsEvent list" where
  "handleMessage E data =
     (case parseStringPromise E data of
        Inl e \<Rightarrow> []
      | Inr result \<Rightarrow>
          (case getProp result ''updates'' of
             Inl e \<Rightarrow> []
           | Inr updates \<Rightarrow>
               if truthy updates then
                 runBlocks [volumeBlock, nowPlayingBlock, presetsBlock, zoneBlock, bassBlock,
                            connectionStateBlock] updates
               else []))"

subsection \<open>Connection state\<close>

datatype readyState = CONNECTING | OPEN | CLOSING | CLOSED

text \<open>
  The fields of a \<open>SoundTouchWebSocket\<close> together with what it has created in the
  runtime: every socket it has constructed (a socket is named by its position in
  \<open>sockets\<close>), the pending timeouts and the running intervals (named by handles, which
  are never falsy), the events it has emitted and the pings it has sent. \<open>urlValid\<close> says
  whether the \<open>WebSocket\<close> constructor accepts the address or throws.
\<close>

record stream =
  ws :: "nat option"
  reconnectTimer :: "nat option"
  pingInterval :: "nat option"
  isConnecting :: bool
  shouldReconnect :: bool
  urlValid :: bool
  sockets :: "readyState list"
  timeouts :: "nat list"
  intervals :: "nat list"
  nextHandle :: nat
  emitted :: "wsEvent list"
  pings :: nat

definition newStream :: "bool \<Rightarrow> stream" where
  "newStream valid =
     \<lparr>ws = None, reconnectTimer = None, pingInterval = None, isConnecting = False,
      shouldReconnect = True, urlValid = valid, sockets = [], timeouts = [], intervals = [],
      nextHandle = 0, emitted = [], pings = 0\<rparr>"

text \<open>Emitting hands the event to the listeners, which are outside the stream: the model
  records what was emitted. A listener that calls back into the stream shows as a later
  input.\<close>

definition emit :: "wsEvent \<Rightarrow> stream \<Rightarrow> stream" where
  "emit ev s = s\<lparr>emitted := emitted s @ [ev]\<rparr>"

definition cleanup :: "stream \<Rightarrow> stream" where
  "cleanup s =
     (let s1 = (case pingInterval s of
                  Some h \<Rightarrow> s\<lparr>intervals := removeAll h (intervals s), pingInterval := None\<rparr>
                | None \<Rightarrow> s)
      in (case reconnectTimer s1 of
            Some h \<Rightarrow> s1\<lparr>timeouts := removeAll h (timeouts s1), reconnectTimer := None\<rparr>
          | None \<Rightarrow> s1))"

definition startPing :: "stream \<Rightarrow> stream" where
  "startPing s =
     s\<lparr>pingInterval := Some (nextHandle s), intervals := intervals s @ [nextHandle s],
       nextHandle := Suc (nextHandle s)\<rparr>"

text \<open>The reconnect timeout is registered here; what it does when it fires is
  \<open>reconnectTimerFired\<close> below.\<close>

definition scheduleReconnect :: "stream \<Rightarrow> stream" where
  "scheduleReconnect s =
     (if \<not> shouldReconnect s \<or> reconnectTimer s \<noteq> None then s
      else s\<lparr>reconnectTimer := Some (nextHandle s), timeouts := timeouts s @ [nextHandle s],
             nextHandle := Suc (nextHandle s)\<rparr>)"

definition connect :: "stream \<Rightarrow> stream" where
  "connect s =
     (if ws s \<noteq> None \<or> isConnecting s then s
      else
        let s1 = s\<lparr>isConnecting := True, shouldReconnect := True\<rparr>
        in if urlValid s1
           then s1\<lparr>ws := Some (length (sockets s1)), sockets := sockets s1 @ [CONNECTING]\<rparr>
           else scheduleReconnect (emit ErrorEvent (s1\<lparr>isConnecting := False\<rparr>)))"

text \<open>\<open>close()\<close> of a socket: it starts closing unless it is closed already; its
  \<open>close\<close> event comes later, from the event loop.\<close>

definition closeSocket :: "nat \<Rightarrow> readyState list \<Rightarrow> readyState list" where
  "closeSocket i socks =
     (if i < length socks \<and> socks ! i \<noteq> CLOSED then socks[i := CLOSING] else socks)"

definition disconnect :: "stream \<Rightarrow> stream" where
  "disconnect s =
     (let s1 = cleanup (s\<lparr>shouldReconnect := False\<rparr>)
      in (case ws s1 of
            Some i \<Rightarrow> s1\<lparr>sockets := closeSocket i (sockets s1), ws := None\<rparr>
          | None \<Rightarrow> s1))"

text \<open>The listeners that \<open>connect\<close> puts on a socket, and the two timer callbacks. They
  close over the stream, not over the socket they were put on.\<close>

definition onOpen :: "stream \<Rightarrow> stream" where
  "onOpen s = startPing (emit ConnectedEvent (s\<lparr>isConnecting := False\<rparr>))"

definition onMessage :: "'d env \<Rightarrow> string \<Rightarrow> stream \<Rightarrow> stream" where
  "onMessage E data s = s\<lparr>emitted := emitted s @ handleMessage E data\<rparr>"

definition onError :: "stream \<Rightarrow> stream" where
  "onError s = emit ErrorEvent s"

definition onClose :: "stream \<Rightarrow> stream" where
  "onClose s = scheduleReconnect (emit DisconnectedEvent (cleanup (s\<lparr>isConnecting := False\<rparr>)))"

definition reconnectTimerFired :: "stream \<Rightarrow> stream" where
  "reconnectTimerFired s = connect (s\<lparr>reconnectTimer := None, ws := None\<rparr>)"

definition pingTick :: "stream \<Rightarrow> stream" where
  "pingTick s =
     (case ws s of
        Some i \<Rightarrow> if i < length (sockets s) \<and> sockets s ! i = OPEN then s\<lparr>pings := Suc (pings s)\<rparr> else s
      | None \<Rightarrow> s)"

text \<open>
  What can happen to a stream: a call of one of its two public methods, an event of one of
  its sockets, or a timer that fires. The runtime delivers socket events and timers from
  the event loop, one at a time: a socket opens only while it is connecting, reports
  \<open>close\<close> once, reports nothing after that, and delivers messages only once open; a
  timer fires only while it is registered, a timeout once. An input that the runtime
  cannot deliver in a state leaves the state as it is.
\<close>

datatype input =
    Connect
  | Disconnect
  | SockOpen nat
  | SockMessage nat string
  | SockError nat
  | SockClose nat
  | TimeoutFires nat
  | IntervalFires nat

fun step :: "'d env \<Rightarrow> input \<Rightarrow> stream \<Rightarrow> stream" where
  "step E Connect s = connect s"
| "step E Disconnect s = disconnect s"
| "step E (SockOpen i) s =
     (if i < length (sockets s) \<and> sockets s ! i = CONNECTING
      then onOpen (s\<lparr>sockets := (sockets s)[i := OPEN]\<rparr>) else s)"
| "step E (SockMessage i data) s =
     (if i < length (sockets s) \<and> (sockets s ! i = OPEN \<or> sockets s ! i = CLOSING)
      then onMessage E data s else s)"
| "step E (SockError i) s =
     (if i < length (sockets s) \<and> sockets s ! i \<noteq> CLOSED then onError s else s)"
| "step E (SockClose i) s =
     (if i < length (sockets s) \<and> sockets s ! i \<noteq> CLOSED
      then onClose (s\<lparr>sockets := (sockets s)[i := CLOSED]\<rparr>) else s)"
| "step E (TimeoutFires h) s =
     (if h \<in> set (timeouts s)
      then reconnectTimerFired (s\<lparr>timeouts := removeAll h (timeouts s)\<rparr>) else s)"
| "step E (IntervalFires h) s = (if h \<in> set (intervals s) then pingTick s else s)"

fun run :: "'d env \<Rightarrow> input list \<Rightarrow> stream \<Rightarrow> stream" where
  "run E [] s = s"
| "run E (i # is) s = run E is (step E i s)"

text \<open>The states a stream can be in: those a sequence of inputs leads to from a new
  stream.\<close>

definition reachable :: "'d env \<Rightarrow> stream \<Rightarrow> bool" where
  "reachable E s = (\<exists>valid is. s = run E is (newStream valid))"

text \<open>The connection attempts in flight: the sockets that are still connecting.\<close>

definition attemptsInFlight :: "stream \<Rightarrow> nat" where
  "attemptsInFlight s = length (filter (\<lambda>r. r = CONNECTING) (sockets s))"

subsection \<open>Invariants of the connection state\<close>

text \<open>The pending timeouts are exactly the one the stream holds in \<open>reconnectTimer\<close>,
  if it holds one.\<close>

definition timerInv :: "stream \<Rightarrow> bool" where
  "timerInv s = (timeouts s = (case reconnectTimer s of None \<Rightarrow> [] | Some h \<Rightarrow> [h]))"


text \<open>A stream at rest after \<open>disconnect\<close>: reconnection is off, no socket is held and no
  timeout is pending.\<close>

definition atRest :: "stream \<Rightarrow> bool" where
  "atRest s = (\<not> shouldReconnect s \<and> ws s = None \<and> reconnectTimer s = None \<and> timeouts s = [])"

section \<open>Discovery\<close>

text \<open>A service as the mDNS browser announces it, and a device as discovery records it.\<close>

record service =
  svcName :: string
  svcHost :: string
  svcPort :: nat
  svcAddresses :: "string list option"
  svcTxtMAC :: "string option"

record discoveredDevice =
  devName :: string
  devHost :: string
  devPort :: nat
  devMac :: "string option"

text \<open>The device map of a continuous session, in insertion order, with the devices
  handed to \<open>onDeviceFound\<close> and to \<open>onDeviceLost\<close> so far.\<close>

record discovery =
  devices :: "(string \<times> discoveredDevice) list"
  found :: "discoveredDevice list"
  lost :: "discoveredDevice list"

definition handleServiceUp :: "service \<Rightarrow> discovery \<Rightarrow> discovery" where
  "handleServiceUp svc s =
     (case svcAddresses svc of
        None \<Rightarrow> s
      | Some [] \<Rightarrow> s
      | Some (first # others) \<Rightarrow>
          let host = (case find (\<lambda>addr. CHR '':'' \<notin> set addr) (first # others) of
                        Some addr \<Rightarrow> if addr \<noteq> [] then addr else first
                      | None \<Rightarrow> first);
              device = \<lparr>devName = svcName svc, devHost = host,
                        devPort = (if svcPort svc \<noteq> 0 then svcPort svc else 8090),
                        devMac = svcTxtMAC svc\<rparr>;
              key = devHost device @ '':'' @ showNat (devPort device)
          in if map_of (devices s) key = None
             then s\<lparr>devices := devices s @ [(key, device)], found := found s @ [device]\<rparr>
             else s)"

definition handleServiceDown :: "service \<Rightarrow> discovery \<Rightarrow> discovery" where
  "handleServiceDown svc s =
     foldl (\<lambda>s addr.
        let key = addr @ '':'' @ showNat (if svcPort svc \<noteq> 0 then svcPort svc else 8090)
        in (case map_of (devices s) key of
              Some device \<Rightarrow>
                s\<lparr>devices := filter (\<lambda>kv. fst kv \<noteq> key) (devices s), lost := lost s @ [device]\<rparr>
            | None \<Rightarrow> s))
       s (case svcAddresses svc of None \<Rightarrow> [] | Some addrs \<Rightarrow> addrs)"

text \<open>The browser callback of \<open>discoverOnce\<close>, and \<open>discoverOnce\<close> itself on the
  services announced before the timeout.\<close>

definition discoverOnceUp :: "service \<Rightarrow> discoveredDevice list \<Rightarrow> discoveredDevice list" where
  "discoverOnceUp svc devs =
     (case svcAddresses svc of
        None \<Rightarrow> devs
      | Some [] \<Rightarrow> devs
      | Some (first # others) \<Rightarrow>
          let host = (case find (\<lambda>addr. CHR '':'' \<notin> set addr) (first # others) of
                        Some addr \<Rightarrow> if addr \<noteq> [] then addr else first
                      | None \<Rightarrow> first);
              device = \<lparr>devName = svcName svc, devHost = host,
                        devPort = (if svcPort svc \<noteq> 0 then svcPort svc else 8090),
                        devMac = svcTxtMAC svc\<rparr>;
              exists = list_ex (\<lambda>d. devHost d = devHost device \<and> devPort d = devPort device) devs
          in if \<not> exists then devs @ [device] else devs)"

definition discoverOnce :: "service list \<Rightarrow> discoveredDevice list" where
  "discoverOnce announced = foldl (\<lambda>devs svc. discoverOnceUp svc devs) [] announced"

section \<open>Observations and sample surroundings\<close>

text \<open>Whether an element of a parsed document has a child element (or attribute group) of
  the given name.\<close>

fun hasChild :: "jsval \<Rightarrow> string \<Rightarrow> bool" where
  "hasChild (JObject kvs) k = (k \<in> fst ` set kvs)"
| "hasChild v k = False"

subsection \<open>Devices and parsers for concrete runs\<close>

text \<open>A device that answers the \<open>n\<close>-th request with the \<open>n\<close>-th outcome of a script
  and refuses the connection after that; its state counts the requests.\<close>

definition scriptedDevice :: "httpOutcome list \<Rightarrow> httpRequest \<Rightarrow> nat \<Rightarrow> httpOutcome \<times> nat" where
  "scriptedDevice script rq n =
     ((if n < length script then script ! n else NetError ''ECONNREFUSED''), Suc n)"

text \<open>A parser that knows the documents of a table and rejects every other text, and a
  builder that writes every object as the same text.\<close>

definition tableParser :: "(string \<times> jsval) list \<Rightarrow> string \<Rightarrow> error + jsval" where
  "tableParser tab xml = (case map_of tab xml of Some v \<Rightarrow> Inr v | None \<Rightarrow> Inl (ParseError xml))"

definition scriptedEnv :: "httpOutcome list \<Rightarrow> (string \<times> jsval) list \<Rightarrow> nat env" where
  "scriptedEnv script tab =
     \<lparr>transport = scriptedDevice script, parseStringPromise = tableParser tab,
      buildObject = (\<lambda>v. ''<doc/>'')\<rparr>"

section \<open>Properties\<close>

subsection \<open>ProtocolClient\<close>

lemma showNat_100: "showNat 100 = ''100''"
  by (simp add: showNat.simps digitChar_def)

lemma showNat_0: "showNat 0 = ''0''"
  by (simp add: showNat.simps digitChar_def)

lemma volumeXml_ne: "volumeXml level \<noteq> []"
  by (simp add: volumeXml_def)

lemma bindS_liftE_snd: "snd (bindS m (\<lambda>x. liftE (f x)) s) = snd (m s)"
  by (cases "m s"; cases "fst (m s)") (auto simp: bindS_def liftE_def)

lemma bindS_unit_snd: "snd (bindS m (\<lambda>_. returnS ()) s) = snd (m s)"
  by (cases "m s"; cases "fst (m s)") (auto simp: bindS_def returnS_def)

lemma bindS_unit_fst: "fst (bindS m (\<lambda>_. returnS ()) s) = map_sum id (\<lambda>_. ()) (fst (m s))"
  by (cases "m s"; cases "fst (m s)") (auto simp: bindS_def returnS_def)

lemma bindS_Inl: "fst (m s) = Inl e \<Longrightarrow> bindS m f s = (Inl e, snd (m s))"
  by (cases "m s") (auto simp: bindS_def)

lemma bindS_Inr: "fst (m s) = Inr x \<Longrightarrow> bindS m f s = f x (snd (m s))"
  by (cases "m s") (auto simp: bindS_def)

lemma request_snd:
  "snd (request E m p body (d, issued)) =
     (snd (transport E \<lparr>reqMethod = m, reqPath = p,
              reqBody = (case body of None \<Rightarrow> None | Some b \<Rightarrow> if b = [] then None else Some b)\<rparr> d),
      issued @ [\<lparr>reqMethod = m, reqPath = p,
              reqBody = (case body of None \<Rightarrow> None | Some b \<Rightarrow> if b = [] then None else Some b)\<rparr>])"
  by (simp add: request_def Let_def split: prod.splits)

lemma post_snd:
  "body \<noteq> [] \<Longrightarrow> snd (post E p body (d, issued)) =
     (snd (transport E \<lparr>reqMethod = POST, reqPath = p, reqBody = Some body\<rparr> d),
      issued @ [\<lparr>reqMethod = POST, reqPath = p, reqBody = Some body\<rparr>])"
  by (simp add: post_def bindS_liftE_snd request_snd)

lemma get_snd:
  "snd (get E p (d, issued)) =
     (snd (transport E \<lparr>reqMethod = GET, reqPath = p, reqBody = None\<rparr> d),
      issued @ [\<lparr>reqMethod = GET, reqPath = p, reqBody = None\<rparr>])"
  by (simp add: get_def bindS_liftE_snd request_snd)

lemma setVolume_issued:
  "snd (snd (setVolume E level (d, issued))) =
     issued @ [\<lparr>reqMethod = POST, reqPath = ''/volume'', reqBody = Some (volumeXml level)\<rparr>]"
  by (simp add: setVolume_def bindS_unit_snd post_snd volumeXml_ne)

lemma pressXml_ne: "pressXml key \<noteq> []" by (simp add: pressXml_def)
lemma releaseXml_ne: "releaseXml key \<noteq> []" by (simp add: releaseXml_def)

lemma pressKey_fail:
  "fst (post E ''/key'' (pressXml key) s) = Inl e \<Longrightarrow> pressKey E key s = (Inl e, snd (post E ''/key'' (pressXml key) s))"
  by (simp add: pressKey_def bindS_Inl)

lemma pressKey_ok:
  "fst (post E ''/key'' (pressXml key) s) = Inr v \<Longrightarrow>
   pressKey E key s = bindS (post E ''/key'' (releaseXml key)) (\<lambda>_. returnS ()) (snd (post E ''/key'' (pressXml key) s))"
  by (simp add: pressKey_def bindS_Inr)


lemma clamp_above: "100 < x \<Longrightarrow> max 0 (min 100 \<lfloor>(x::rat) + 1 / 2\<rfloor>) = 100"
  by (simp add: max_def min_def; linarith)

lemma clamp_below: "x < 0 \<Longrightarrow> max 0 (min 100 \<lfloor>(x::rat) + 1 / 2\<rfloor>) = 0"
  by (simp add: max_def min_def; linarith)

lemma clamp_inside:
  "0 \<le> x \<Longrightarrow> x \<le> 100 \<Longrightarrow> max 0 (min 100 \<lfloor>(x::rat) + 1 / 2\<rfloor>) = \<lfloor>x + 1 / 2\<rfloor>"
  by (simp add: max_def min_def; linarith)

lemma round_nearest: "\<bar>of_int \<lfloor>(x::rat) + 1 / 2\<rfloor> - x\<bar> \<le> 1 / 2"
  by linarith

lemma volumeXml_Finite:
  "volumeXml (Finite x) = ''<volume>'' @ showInt (max 0 (min 100 \<lfloor>x + 1 / 2\<rfloor>)) @ ''</volume>''"
proof -
  have "\<lfloor>max (0::rat) (min 100 (of_int \<lfloor>x + 1 / 2\<rfloor>))\<rfloor> = max 0 (min 100 \<lfloor>x + 1 / 2\<rfloor>)"
    by (simp add: max_def min_def)
  then show ?thesis by (simp add: volumeXml_def)
qed

lemma showInt_100: "showInt 100 = ''100''"
  by (simp add: showInt_def showNat_100)

lemma showInt_0: "showInt 0 = ''0''"
  by (simp add: showInt_def showNat_0)

text \<open>
  C1. \<open>setVolume\<close> issues one POST to \<open>/volume\<close> whose body carries \<open>round(level)\<close>
  clamped into \<open>[0,100]\<close>: every level above 100 (also \<open>+\<infinity>\<close>) is written as 100, every
  level below 0 (also \<open>-\<infinity>\<close>) as 0, and a level in the range as the integer nearest to it.
\<close>

theorem setVolume_rounds_and_clamps:
  "snd (snd (setVolume E level (d, issued))) =
     issued @ [\<lparr>reqMethod = POST, reqPath = ''/volume'', reqBody = Some (volumeXml level)\<rparr>]
   \<and> volumeXml (Finite x) = ''<volume>'' @ showInt (max 0 (min 100 \<lfloor>x + 1 / 2\<rfloor>)) @ ''</volume>''
   \<and> (100 < x \<longrightarrow> volumeXml (Finite x) = ''<volume>100</volume>'')
   \<and> volumeXml PosInfinity = ''<volume>100</volume>''
   \<and> (x < 0 \<longrightarrow> volumeXml (Finite x) = ''<volume>0</volume>'')
   \<and> volumeXml NegInfinity = ''<volume>0</volume>''
   \<and> (0 \<le> x \<and> x \<le> 100 \<longrightarrow>
        volumeXml (Finite x) = ''<volume>'' @ showNat (nat \<lfloor>x + 1 / 2\<rfloor>) @ ''</volume>''
        \<and> 0 \<le> \<lfloor>x + 1 / 2\<rfloor> \<and> \<lfloor>x + 1 / 2\<rfloor> \<le> 100
        \<and> \<bar>of_int \<lfloor>x + 1 / 2\<rfloor> - x\<bar> \<le> 1 / 2)"
proof -
  have inf: "volumeXml PosInfinity = ''<volume>100</volume>''"
            "volumeXml NegInfinity = ''<volume>0</volume>''"
    by (simp_all add: volumeXml_def showInt_100 showInt_0)
  have above: "100 < x \<longrightarrow> volumeXml (Finite x) = ''<volume>100</volume>''"
    by (simp add: volumeXml_Finite clamp_above showInt_100)
  have below: "x < 0 \<longrightarrow> volumeXml (Finite x) = ''<volume>0</volume>''"
    by (simp add: volumeXml_Finite clamp_below showInt_0)
  have inside: "0 \<le> x \<and> x \<le> 100 \<longrightarrow>
        volumeXml (Finite x) = ''<volume>'' @ showNat (nat \<lfloor>x + 1 / 2\<rfloor>) @ ''</volume>''
        \<and> 0 \<le> \<lfloor>x + 1 / 2\<rfloor> \<and> \<lfloor>x + 1 / 2\<rfloor> \<le> 100
        \<and> \<bar>of_int \<lfloor>x + 1 / 2\<rfloor> - x\<bar> \<le> 1 / 2"
  proof
    assume r: "0 \<le> x \<and> x \<le> 100"
    then have lo: "0 \<le> \<lfloor>x + 1 / 2\<rfloor>" and hi: "\<lfloor>x + 1 / 2\<rfloor> \<le> 100"
      by linarith+
    from r have "volumeXml (Finite x) = ''<volume>'' @ showInt \<lfloor>x + 1 / 2\<rfloor> @ ''</volume>''"
      by (simp add: volumeXml_Finite clamp_inside)
    with lo have "volumeXml (Finite x) = ''<volume>'' @ showNat (nat \<lfloor>x + 1 / 2\<rfloor>) @ ''</volume>''"
      by (simp add: showInt_def)
    with lo hi round_nearest[of x] show
      "volumeXml (Finite x) = ''<volume>'' @ showNat (nat \<lfloor>x + 1 / 2\<rfloor>) @ ''</volume>''
        \<and> 0 \<le> \<lfloor>x + 1 / 2\<rfloor> \<and> \<lfloor>x + 1 / 2\<rfloor> \<le> 100
        \<and> \<bar>of_int \<lfloor>x + 1 / 2\<rfloor> - x\<bar> \<le> 1 / 2"
      by blast
  qed
  from setVolume_issued[of E level d issued] volumeXml_Finite[of x] inf above below inside
  show ?thesis by blast
qed

theorem setVolume_rounds_and_clamps_witness:
  "snd (snd (setVolume (scriptedEnv [Response 200 ''<status>/volume</status>''] []) (Finite 150) (0, []))) =
     [\<lparr>reqMethod = POST, reqPath = ''/volume'', reqBody = Some ''<volume>100</volume>''\<rparr>]
   \<and> volumeXml (Finite (- 5)) = ''<volume>0</volume>''
   \<and> volumeXml (Finite (85 / 2)) = ''<volume>43</volume>''"
proof -
  note inst = setVolume_rounds_and_clamps
    [of "scriptedEnv [Response 200 ''<status>/volume</status>''] []" "Finite 150" 0 "[]"]
  from inst[of 150] inst[of "- 5"] inst[of "85 / 2"]
  show ?thesis by (simp add: showInt_def showNat.simps digitChar_def)
qed

text \<open>What \<open>setVolume\<close> prints is NaN or an integer between 0 and 100, so the decimal
  notation of \<open>numToString\<close> is the notation JavaScript uses for it.\<close>

lemma volume_value_integral:
  "Math_max (Finite 0) (Math_min (Finite 100) (Math_round level)) = NaN
   \<or> (\<exists>n. 0 \<le> n \<and> n \<le> 100
          \<and> Math_max (Finite 0) (Math_min (Finite 100) (Math_round level)) = Finite (of_int n))"
proof (cases level)
  case (Finite x)
  have "max (0::rat) (min 100 (of_int \<lfloor>x + 1 / 2\<rfloor>)) = of_int (max 0 (min 100 \<lfloor>x + 1 / 2\<rfloor>))"
    by (simp add: max_def min_def)
  moreover have "0 \<le> max 0 (min 100 \<lfloor>x + 1 / 2\<rfloor>)" "max 0 (min 100 \<lfloor>x + 1 / 2\<rfloor>) \<le> 100"
    by simp_all
  ultimately show ?thesis using Finite by auto
next
  case NaN
  then show ?thesis by simp
next
  case PosInfinity
  have "(100::rat) = of_int 100" by simp
  with PosInfinity show ?thesis by (auto intro: exI[of _ 100])
next
  case NegInfinity
  have "(0::rat) = of_int 0" by simp
  with NegInfinity show ?thesis by (auto intro: exI[of _ 0])
qed

text \<open>NaN is no level: it passes through \<open>Math.round\<close>, \<open>Math.min\<close> and
  \<open>Math.max\<close> and is written as it is.\<close>

lemma volumeXml_NaN: "volumeXml NaN = ''<volume>NaN</volume>''"
  by (simp add: volumeXml_def)

lemma request_fst:
  "fst (request E m p body (d, issued)) =
     (case fst (transport E \<lparr>reqMethod = m, reqPath = p,
                  reqBody = (case body of None \<Rightarrow> None | Some b \<Rightarrow> if b = [] then None else Some b)\<rparr> d) of
        Response statusCode data \<Rightarrow>
          if statusCode \<noteq> 0 \<and> 200 \<le> statusCode \<and> statusCode < 300 then Inr data
          else Inl (HttpError statusCode data)
      | NetError msg \<Rightarrow> Inl (SocketError msg)
      | Timeout \<Rightarrow> Inl RequestTimeout)"
  by (simp add: request_def Let_def split: prod.splits)

lemma bindS_liftE_fst: "fst (bindS m (\<lambda>x. liftE (f x)) s) = ebind (fst (m s)) f"
  by (cases "m s"; cases "fst (m s)") (auto simp: bindS_def liftE_def ebind_def)

lemma post_fst:
  "fst (post E p body (d, issued)) =
     (case fst (transport E \<lparr>reqMethod = POST, reqPath = p,
                  reqBody = (if body = [] then None else Some body)\<rparr> d) of
        Response statusCode data \<Rightarrow>
          if statusCode \<noteq> 0 \<and> 200 \<le> statusCode \<and> statusCode < 300 then parseStringPromise E data
          else Inl (HttpError statusCode data)
      | NetError msg \<Rightarrow> Inl (SocketError msg)
      | Timeout \<Rightarrow> Inl RequestTimeout)"
  by (cases "body = []") (auto simp: post_def bindS_liftE_fst request_fst ebind_def split: httpOutcome.splits)

lemma get_fst:
  "fst (get E p (d, issued)) =
     (case fst (transport E \<lparr>reqMethod = GET, reqPath = p, reqBody = None\<rparr> d) of
        Response statusCode data \<Rightarrow>
          if statusCode \<noteq> 0 \<and> 200 \<le> statusCode \<and> statusCode < 300 then parseStringPromise E data
          else Inl (HttpError statusCode data)
      | NetError msg \<Rightarrow> Inl (SocketError msg)
      | Timeout \<Rightarrow> Inl RequestTimeout)"
  by (auto simp: get_def bindS_liftE_fst request_fst ebind_def split: httpOutcome.splits)

text \<open>
  C2. \<open>pressKey\<close> posts the press event of the key to \<open>/key\<close>; when that call fails, the
  failure is the result and nothing else is sent; when it succeeds, the release event of the
  same key is posted to \<open>/key\<close>, to the device as the press request left it, and these two
  are all the requests of the call.
\<close>

theorem pressKey_press_then_release:
  "(let press = \<lparr>reqMethod = POST, reqPath = ''/key'', reqBody = Some (pressXml key)\<rparr>;
        release = \<lparr>reqMethod = POST, reqPath = ''/key'', reqBody = Some (releaseXml key)\<rparr>;
        d1 = snd (transport E press d);
        d2 = snd (transport E release d1)
    in (case fst (post E ''/key'' (pressXml key) (d, issued)) of
          Inl e \<Rightarrow> pressKey E key (d, issued) = (Inl e, d1, issued @ [press])
        | Inr v \<Rightarrow> snd (pressKey E key (d, issued)) = (d2, issued @ [press, release])))"
proof (cases "fst (post E ''/key'' (pressXml key) (d, issued))")
  case (Inl e)
  then show ?thesis
    using pressKey_fail[OF Inl] by (simp add: post_snd pressXml_ne)
next
  case (Inr v)
  then show ?thesis
    using pressKey_ok[OF Inr]
    by (simp add: post_snd pressXml_ne releaseXml_ne bindS_unit_snd)
qed

theorem pressKey_press_then_release_witness:
  "snd (pressKey (scriptedEnv [Response 200 ''<status>/key</status>'', Response 200 ''<status>/key</status>'']
                    [(''<status>/key</status>'', JObject [(''status'', JString ''/key'')])]) POWER (0, []))
     = (2, [\<lparr>reqMethod = POST, reqPath = ''/key'',
              reqBody = Some ''<key state=\"press\" sender=\"Gabbo\">POWER</key>''\<rparr>,
            \<lparr>reqMethod = POST, reqPath = ''/key'',
              reqBody = Some ''<key state=\"release\" sender=\"Gabbo\">POWER</key>''\<rparr>])
   \<and> pressKey (scriptedEnv [Response 500 ''busy''] []) POWER (0, [])
     = (Inl (HttpError 500 ''busy''), 1,
        [\<lparr>reqMethod = POST, reqPath = ''/key'',
              reqBody = Some ''<key state=\"press\" sender=\"Gabbo\">POWER</key>''\<rparr>])"
  using pressKey_press_then_release
      [of POWER "scriptedEnv [Response 200 ''<status>/key</status>'', Response 200 ''<status>/key</status>'']
                    [(''<status>/key</status>'', JObject [(''status'', JString ''/key'')])]" 0 "[]"]
    pressKey_press_then_release [of POWER "scriptedEnv [Response 500 ''busy''] []" 0 "[]"]
  by (simp add: post_fst scriptedEnv_def scriptedDevice_def tableParser_def pressXml_def releaseXml_def Let_def)

lemma bindS_returnS: "bindS m returnS = m"
  by (rule ext) (auto simp: bindS_def returnS_def split: prod.splits sum.splits)

lemma mute_eq: "mute E = pressKey E MUTE"
  by (simp add: mute_def bindS_returnS)

lemma getVolume_snd:
  "snd (getVolume E (d, issued)) =
     (snd (transport E \<lparr>reqMethod = GET, reqPath = ''/volume'', reqBody = None\<rparr> d),
      issued @ [\<lparr>reqMethod = GET, reqPath = ''/volume'', reqBody = None\<rparr>])"
  by (simp add: getVolume_def bindS_liftE_snd get_snd)

lemma pressKey_issued:
  "snd (snd (pressKey E key (d, issued))) =
     issued @ [\<lparr>reqMethod = POST, reqPath = ''/key'', reqBody = Some (pressXml key)\<rparr>]
       @ (if isl (fst (post E ''/key'' (pressXml key) (d, issued))) then []
          else [\<lparr>reqMethod = POST, reqPath = ''/key'', reqBody = Some (releaseXml key)\<rparr>])"
proof (cases "fst (post E ''/key'' (pressXml key) (d, issued))")
  case (Inl e)
  then show ?thesis
    using pressKey_fail[OF Inl] by (simp add: post_snd pressXml_ne)
next
  case (Inr v)
  then show ?thesis
    using pressKey_ok[OF Inr]
    by (simp add: post_snd pressXml_ne releaseXml_ne bindS_unit_snd)
qed

text \<open>\<open>setMute\<close> in terms of what \<open>getVolume\<close> resolves with.\<close>

lemma setMute_after_getVolume:
  "(let query = \<lparr>reqMethod = GET, reqPath = ''/volume'', reqBody = None\<rparr>;
        press = \<lparr>reqMethod = POST, reqPath = ''/key'', reqBody = Some (pressXml MUTE)\<rparr>;
        release = \<lparr>reqMethod = POST, reqPath = ''/key'', reqBody = Some (releaseXml MUTE)\<rparr>;
        d1 = snd (transport E query d)
    in (case fst (getVolume E (d, issued)) of
          Inl e \<Rightarrow> setMute E muted (d, issued) = (Inl e, d1, issued @ [query])
        | Inr volume \<Rightarrow>
            if muteenabled volume = muted
            then setMute E muted (d, issued) = (Inr (), d1, issued @ [query])
            else setMute E muted (d, issued) = pressKey E MUTE (d1, issued @ [query])
               \<and> snd (snd (setMute E muted (d, issued))) =
                   issued @ [query, press]
                     @ (if isl (fst (post E ''/key'' (pressXml MUTE) (d1, issued @ [query])))
                        then [] else [release])))"
proof (cases "fst (getVolume E (d, issued))")
  case (Inl e)
  then show ?thesis
    by (simp add: setMute_def getVolume_snd Let_def bindS_Inl[of "getVolume E" "(d, issued)" e, OF Inl])
next
  case (Inr volume)
  show ?thesis
  proof (cases "muteenabled volume = muted")
    case True
    with Inr show ?thesis
      by (simp add: setMute_def getVolume_snd returnS_def Let_def bindS_Inr[of "getVolume E" "(d, issued)" volume, OF Inr])
  next
    case False
    with Inr have "setMute E muted (d, issued) =
        pressKey E MUTE (snd (transport E \<lparr>reqMethod = GET, reqPath = ''/volume'', reqBody = None\<rparr> d),
                         issued @ [\<lparr>reqMethod = GET, reqPath = ''/volume'', reqBody = None\<rparr>])"
      by (simp add: setMute_def getVolume_snd mute_eq bindS_returnS bindS_Inr[of "getVolume E" "(d, issued)" volume, OF Inr])
    with Inr False show ?thesis
      by (simp add: pressKey_issued Let_def)
  qed
qed

lemma getProp_defined:
  "v \<noteq> JUndefined \<Longrightarrow> v \<noteq> JNull \<Longrightarrow> \<exists>x. getProp v k = Inr x"
  by (cases v) (auto split: option.splits)

lemma getVolume_decodes_answer:
  assumes t: "transport E \<lparr>reqMethod = GET, reqPath = ''/volume'', reqBody = None\<rparr> d
                = (Response status xml, d1)"
      and ok: "200 \<le> status" "status < 300"
      and p: "parseStringPromise E xml = Inr result"
      and v: "getProp result ''volume'' = Inr vol" "vol \<noteq> JUndefined" "vol \<noteq> JNull"
      and m: "getProp vol ''muteenabled'' = Inr me"
  shows "\<exists>tv av. fst (getVolume E (d, issued)) =
           Inr \<lparr>targetvolume = tv, actualvolume = av, muteenabled = (me = JString ''true'')\<rparr>"
proof -
  from getProp_defined[OF v(2) v(3)] obtain x where x: "getProp vol ''targetvolume'' = Inr x"
    by blast
  from getProp_defined[OF v(2) v(3)] obtain y where y: "getProp vol ''actualvolume'' = Inr y"
    by blast
  have g: "fst (get E ''/volume'' (d, issued)) = Inr result"
    using t ok p by (simp add: get_fst)
  have "fst (getVolume E (d, issued)) =
          Inr \<lparr>targetvolume = parseInt x, actualvolume = parseInt y,
               muteenabled = (me = JString ''true'')\<rparr>"
    by (simp add: getVolume_def bindS_liftE_fst g ebind_def v(1) x y m)
  then show ?thesis by blast
qed

lemma post_fails_iff:
  "isl (fst (post E p body (d, issued))) =
     (case fst (transport E \<lparr>reqMethod = POST, reqPath = p,
                  reqBody = (if body = [] then None else Some body)\<rparr> d) of
        Response statusCode data \<Rightarrow>
          \<not> (200 \<le> statusCode \<and> statusCode < 300) \<or> isl (parseStringPromise E data)
      | NetError msg \<Rightarrow> True
      | Timeout \<Rightarrow> True)"
  by (auto simp: post_fst split: httpOutcome.splits)

text \<open>
  C4. \<open>setMute\<close> first asks the device for the volume state with one GET of \<open>/volume\<close>.
  The current mute flag is what the answer says: the text of \<open>muteenabled\<close> is \<open>true\<close>
  or it is not. When that flag equals the argument, the call resolves with no further
  request; when it differs, the call goes on as exactly one press of the MUTE key, to the
  device as the query left it: the press event and, unless that request fails (no
  answer, a status outside \<open>200..299\<close>, or an answer that does not parse), the release
  event.
\<close>

theorem setMute_queries_then_toggles_once:
  "transport E \<lparr>reqMethod = GET, reqPath = ''/volume'', reqBody = None\<rparr> d = (Response status xml, d1)
   \<and> 200 \<le> status \<and> status < 300
   \<and> parseStringPromise E xml = Inr result
   \<and> getProp result ''volume'' = Inr vol \<and> vol \<noteq> JUndefined \<and> vol \<noteq> JNull
   \<and> getProp vol ''muteenabled'' = Inr me
   \<longrightarrow>
   (let query = \<lparr>reqMethod = GET, reqPath = ''/volume'', reqBody = None\<rparr>;
        press = \<lparr>reqMethod = POST, reqPath = ''/key'', reqBody = Some (pressXml MUTE)\<rparr>;
        release = \<lparr>reqMethod = POST, reqPath = ''/key'', reqBody = Some (releaseXml MUTE)\<rparr>;
        pressFails = (case fst (transport E press d1) of
                        Response statusCode data \<Rightarrow>
                          \<not> (200 \<le> statusCode \<and> statusCode < 300)
                          \<or> isl (parseStringPromise E data)
                      | NetError msg \<Rightarrow> True
                      | Timeout \<Rightarrow> True)
    in if (me = JString ''true'') = muted
       then setMute E muted (d, issued) = (Inr (), d1, issued @ [query])
       else setMute E muted (d, issued) = pressKey E MUTE (d1, issued @ [query])
          \<and> snd (snd (setMute E muted (d, issued))) =
               issued @ [query, press] @ (if pressFails then [] else [release]))"
proof
  assume a: "transport E \<lparr>reqMethod = GET, reqPath = ''/volume'', reqBody = None\<rparr> d = (Response status xml, d1)
   \<and> 200 \<le> status \<and> status < 300
   \<and> parseStringPromise E xml = Inr result
   \<and> getProp result ''volume'' = Inr vol \<and> vol \<noteq> JUndefined \<and> vol \<noteq> JNull
   \<and> getProp vol ''muteenabled'' = Inr me"
  then obtain tv av where g: "fst (getVolume E (d, issued)) =
           Inr \<lparr>targetvolume = tv, actualvolume = av, muteenabled = (me = JString ''true'')\<rparr>"
    using getVolume_decodes_answer[of E d status xml d1 result vol me issued] by blast
  from a have d1: "snd (transport E \<lparr>reqMethod = GET, reqPath = ''/volume'', reqBody = None\<rparr> d) = d1"
    by simp
  let ?query = "\<lparr>reqMethod = GET, reqPath = ''/volume'', reqBody = None\<rparr>"
  let ?press = "\<lparr>reqMethod = POST, reqPath = ''/key'', reqBody = Some (pressXml MUTE)\<rparr>"
  let ?release = "\<lparr>reqMethod = POST, reqPath = ''/key'', reqBody = Some (releaseXml MUTE)\<rparr>"
  let ?pressFails = "(case fst (transport E ?press d1) of
                        Response statusCode data \<Rightarrow>
                          \<not> (200 \<le> statusCode \<and> statusCode < 300)
                          \<or> isl (parseStringPromise E data)
                      | NetError msg \<Rightarrow> True
                      | Timeout \<Rightarrow> True)"
  have f: "isl (fst (post E ''/key'' (pressXml MUTE) (d1, issued @ [?query]))) = ?pressFails"
    by (simp add: post_fails_iff pressXml_ne)
  note h = setMute_after_getVolume[where E = E and d = d and issued = issued and muted = muted]
  have "if (me = JString ''true'') = muted
       then setMute E muted (d, issued) = (Inr (), d1, issued @ [?query])
       else setMute E muted (d, issued) = pressKey E MUTE (d1, issued @ [?query])
          \<and> snd (snd (setMute E muted (d, issued))) =
               issued @ [?query, ?press] @ (if ?pressFails then [] else [?release])"
  proof (cases "(me = JString ''true'') = muted")
    case True
    with h g d1 show ?thesis by (simp add: Let_def)
  next
    case False
    with h g d1 have e1: "setMute E muted (d, issued) = pressKey E MUTE (d1, issued @ [?query])"
      by (simp add: Let_def)
    have e2: "snd (snd (setMute E muted (d, issued))) =
               issued @ [?query, ?press] @ (if ?pressFails then [] else [?release])"
      unfolding e1 by (simp add: pressKey_issued f)
    from False e1 e2 show ?thesis by simp
  qed
  then show "(let query = \<lparr>reqMethod = GET, reqPath = ''/volume'', reqBody = None\<rparr>;
        press = \<lparr>reqMethod = POST, reqPath = ''/key'', reqBody = Some (pressXml MUTE)\<rparr>;
        release = \<lparr>reqMethod = POST, reqPath = ''/key'', reqBody = Some (releaseXml MUTE)\<rparr>;
        pressFails = (case fst (transport E press d1) of
                        Response statusCode data \<Rightarrow>
                          \<not> (200 \<le> statusCode \<and> statusCode < 300)
                          \<or> isl (parseStringPromise E data)
                      | NetError msg \<Rightarrow> True
                      | Timeout \<Rightarrow> True)
    in if (me = JString ''true'') = muted
       then setMute E muted (d, issued) = (Inr (), d1, issued @ [query])
       else setMute E muted (d, issued) = pressKey E MUTE (d1, issued @ [query])
          \<and> snd (snd (setMute E muted (d, issued))) =
               issued @ [query, press] @ (if pressFails then [] else [release]))"
    unfolding Let_def .
qed


theorem setMute_queries_then_toggles_once_witness:
  "(let muted = scriptedEnv
              [Response 200 ''<volume/>'', Response 200 ''<status>/key</status>'',
               Response 200 ''<status>/key</status>'']
              [(''<volume/>'', JObject [(''volume'', JObject [(''targetvolume'', JString ''20''),
                  (''actualvolume'', JString ''0''), (''muteenabled'', JString ''true'')])]),
               (''<status>/key</status>'', JObject [(''status'', JString ''/key'')])];
        unmuted = scriptedEnv
              [Response 200 ''<volume/>'', Response 200 ''<status>/key</status>'',
               Response 200 ''<status>/key</status>'']
              [(''<volume/>'', JObject [(''volume'', JObject [(''targetvolume'', JString ''20''),
                  (''actualvolume'', JString ''20''), (''muteenabled'', JString ''false'')])]),
               (''<status>/key</status>'', JObject [(''status'', JString ''/key'')])];
        busy = scriptedEnv
              [Response 200 ''<volume/>'', Response 500 ''busy'']
              [(''<volume/>'', JObject [(''volume'', JObject [(''targetvolume'', JString ''20''),
                  (''actualvolume'', JString ''20''), (''muteenabled'', JString ''false'')])])];
        query = \<lparr>reqMethod = GET, reqPath = ''/volume'', reqBody = None\<rparr>;
        press = \<lparr>reqMethod = POST, reqPath = ''/key'',
                 reqBody = Some ''<key state=\"press\" sender=\"Gabbo\">MUTE</key>''\<rparr>;
        release = \<lparr>reqMethod = POST, reqPath = ''/key'',
                 reqBody = Some ''<key state=\"release\" sender=\"Gabbo\">MUTE</key>''\<rparr>
    in setMute muted True (0, []) = (Inr (), 1, [query])
     \<and> snd (snd (setMute muted False (0, []))) = [query, press, release]
     \<and> snd (snd (setMute unmuted True (0, []))) = [query, press, release]
     \<and> setMute unmuted False (0, []) = (Inr (), 1, [query])
     \<and> snd (snd (setMute busy True (0, []))) = [query, press])"
proof -
  define doc where "doc m = JObject [(''volume'', JObject [(''targetvolume'', JString ''20''),
                  (''actualvolume'', JString (if m = ''true'' then ''0'' else ''20'')),
                  (''muteenabled'', JString m)])]" for m :: string
  define E where "E m = scriptedEnv
              [Response 200 ''<volume/>'', Response 200 ''<status>/key</status>'',
               Response 200 ''<status>/key</status>'']
              [(''<volume/>'', doc m),
               (''<status>/key</status>'', JObject [(''status'', JString ''/key'')])]" for m :: string
  define B where "B = scriptedEnv [Response 200 ''<volume/>'', Response 500 ''busy'']
              [(''<volume/>'', doc ''false'')]"
  have hyp: "transport (E m) \<lparr>reqMethod = GET, reqPath = ''/volume'', reqBody = None\<rparr> 0
               = (Response 200 ''<volume/>'', Suc 0)
     \<and> (200::nat) \<le> 200 \<and> (200::nat) < 300
     \<and> parseStringPromise (E m) ''<volume/>'' = Inr (doc m)
     \<and> getProp (doc m) ''volume'' = Inr (JObject [(''targetvolume'', JString ''20''),
                  (''actualvolume'', JString (if m = ''true'' then ''0'' else ''20'')),
                  (''muteenabled'', JString m)])
     \<and> JObject [(''targetvolume'', JString ''20''),
                  (''actualvolume'', JString (if m = ''true'' then ''0'' else ''20'')),
                  (''muteenabled'', JString m)] \<noteq> JUndefined
     \<and> JObject [(''targetvolume'', JString ''20''),
                  (''actualvolume'', JString (if m = ''true'' then ''0'' else ''20'')),
                  (''muteenabled'', JString m)] \<noteq> JNull
     \<and> getProp (JObject [(''targetvolume'', JString ''20''),
                  (''actualvolume'', JString (if m = ''true'' then ''0'' else ''20'')),
                  (''muteenabled'', JString m)]) ''muteenabled'' = Inr (JString m)" for m
    by (simp add: E_def doc_def scriptedEnv_def scriptedDevice_def tableParser_def)
  have hypB: "transport B \<lparr>reqMethod = GET, reqPath = ''/volume'', reqBody = None\<rparr> 0
               = (Response 200 ''<volume/>'', Suc 0)
     \<and> (200::nat) \<le> 200 \<and> (200::nat) < 300
     \<and> parseStringPromise B ''<volume/>'' = Inr (doc ''false'')
     \<and> getProp (doc ''false'') ''volume'' = Inr (JObject [(''targetvolume'', JString ''20''),
                  (''actualvolume'', JString ''20''), (''muteenabled'', JString ''false'')])
     \<and> JObject [(''targetvolume'', JString ''20''),
                  (''actualvolume'', JString ''20''), (''muteenabled'', JString ''false'')] \<noteq> JUndefined
     \<and> JObject [(''targetvolume'', JString ''20''),
                  (''actualvolume'', JString ''20''), (''muteenabled'', JString ''false'')] \<noteq> JNull
     \<and> getProp (JObject [(''targetvolume'', JString ''20''),
                  (''actualvolume'', JString ''20''), (''muteenabled'', JString ''false'')])
           ''muteenabled'' = Inr (JString ''false'')"
    by (simp add: B_def doc_def scriptedEnv_def scriptedDevice_def tableParser_def)
  have pressOk: "fst (transport (E m) \<lparr>reqMethod = POST, reqPath = ''/key'',
                   reqBody = Some (pressXml MUTE)\<rparr> (Suc 0)) = Response 200 ''<status>/key</status>''"
    "parseStringPromise (E m) ''<status>/key</status>'' = Inr (JObject [(''status'', JString ''/key'')])" for m
    by (simp_all add: E_def scriptedEnv_def scriptedDevice_def tableParser_def)
  have pressBusy: "fst (transport B \<lparr>reqMethod = POST, reqPath = ''/key'',
                   reqBody = Some (pressXml MUTE)\<rparr> (Suc 0)) = Response 500 ''busy''"
    by (simp add: B_def scriptedEnv_def scriptedDevice_def)
  note t = setMute_queries_then_toggles_once
  have r1: "setMute (E ''true'') True (0, []) =
              (Inr (), 1, [\<lparr>reqMethod = GET, reqPath = ''/volume'', reqBody = None\<rparr>])"
    using mp[OF t[where E = "E ''true''" and d = 0 and issued = "[]" and muted = True] hyp[of "''true''"]]
    by (simp add: Let_def)
  have r2: "snd (snd (setMute (E ''true'') False (0, []))) =
              [\<lparr>reqMethod = GET, reqPath = ''/volume'', reqBody = None\<rparr>,
               \<lparr>reqMethod = POST, reqPath = ''/key'', reqBody = Some (pressXml MUTE)\<rparr>,
               \<lparr>reqMethod = POST, reqPath = ''/key'', reqBody = Some (releaseXml MUTE)\<rparr>]"
    using mp[OF t[where E = "E ''true''" and d = 0 and issued = "[]" and muted = False] hyp[of "''true''"]]
    by (auto simp: Let_def pressOk)
  have r3: "snd (snd (setMute (E ''false'') True (0, []))) =
              [\<lparr>reqMethod = GET, reqPath = ''/volume'', reqBody = None\<rparr>,
               \<lparr>reqMethod = POST, reqPath = ''/key'', reqBody = Some (pressXml MUTE)\<rparr>,
               \<lparr>reqMethod = POST, reqPath = ''/key'', reqBody = Some (releaseXml MUTE)\<rparr>]"
    using mp[OF t[where E = "E ''false''" and d = 0 and issued = "[]" and muted = True] hyp[of "''false''"]]
    by (auto simp: Let_def pressOk)
  have r4: "setMute (E ''false'') False (0, []) =
              (Inr (), 1, [\<lparr>reqMethod = GET, reqPath = ''/volume'', reqBody = None\<rparr>])"
    using mp[OF t[where E = "E ''false''" and d = 0 and issued = "[]" and muted = False] hyp[of "''false''"]]
    by (simp add: Let_def)
  have r5: "snd (snd (setMute B True (0, []))) =
              [\<lparr>reqMethod = GET, reqPath = ''/volume'', reqBody = None\<rparr>,
               \<lparr>reqMethod = POST, reqPath = ''/key'', reqBody = Some (pressXml MUTE)\<rparr>]"
    using mp[OF t[where E = B and d = 0 and issued = "[]" and muted = True] hypB]
    by (auto simp: Let_def pressBusy)
  from r1 r2 r3 r4 r5 show ?thesis
    by (simp add: Let_def E_def B_def doc_def pressXml_def releaseXml_def)
qed

lemma getProp_no_child:
  "v \<noteq> JUndefined \<Longrightarrow> v \<noteq> JNull \<Longrightarrow> \<not> hasChild v k \<Longrightarrow> getProp v k = Inr JUndefined"
  by (cases v) (auto simp: map_of_eq_None_iff[THEN iffD2] split: option.splits dest: map_of_SomeD intro: rev_image_eqI)

text \<open>
  C10. When the answer to \<open>/presets\<close> is a document whose \<open>presets\<close> element has no
  \<open>preset\<close> child, \<open>getPresets\<close> resolves with the empty list; when the answer to
  \<open>/sources\<close> is a document whose \<open>sources\<close> element has no \<open>sourceItem\<close> child,
  \<open>getSources\<close> resolves with the empty list.
\<close>

theorem getPresets_getSources_no_child_empty:
  "(transport E \<lparr>reqMethod = GET, reqPath = ''/presets'', reqBody = None\<rparr> d = (Response status xml, d')
      \<and> 200 \<le> status \<and> status < 300
      \<and> parseStringPromise E xml = Inr result
      \<and> getProp result ''presets'' = Inr ps \<and> ps \<noteq> JUndefined \<and> ps \<noteq> JNull
      \<and> \<not> hasChild ps ''preset''
    \<longrightarrow> getPresets E (d, issued) =
          (Inr [], d', issued @ [\<lparr>reqMethod = GET, reqPath = ''/presets'', reqBody = None\<rparr>]))
   \<and> (transport E \<lparr>reqMethod = GET, reqPath = ''/sources'', reqBody = None\<rparr> d = (Response status xml, d')
      \<and> 200 \<le> status \<and> status < 300
      \<and> parseStringPromise E xml = Inr result
      \<and> getProp result ''sources'' = Inr ss \<and> ss \<noteq> JUndefined \<and> ss \<noteq> JNull
      \<and> \<not> hasChild ss ''sourceItem''
    \<longrightarrow> getSources E (d, issued) =
          (Inr [], d', issued @ [\<lparr>reqMethod = GET, reqPath = ''/sources'', reqBody = None\<rparr>]))"
proof (intro conjI impI)
  assume a: "transport E \<lparr>reqMethod = GET, reqPath = ''/presets'', reqBody = None\<rparr> d = (Response status xml, d')
      \<and> 200 \<le> status \<and> status < 300
      \<and> parseStringPromise E xml = Inr result
      \<and> getProp result ''presets'' = Inr ps \<and> ps \<noteq> JUndefined \<and> ps \<noteq> JNull
      \<and> \<not> hasChild ps ''preset''"
  then have g: "fst (get E ''/presets'' (d, issued)) = Inr result"
    by (simp add: get_fst)
  from a have p: "getProp ps ''preset'' = Inr JUndefined"
    by (simp add: getProp_no_child)
  have "fst (getPresets E (d, issued)) = Inr []"
    using a by (simp add: getPresets_def bindS_liftE_fst g p ebind_def)
  moreover have "snd (getPresets E (d, issued)) =
      (d', issued @ [\<lparr>reqMethod = GET, reqPath = ''/presets'', reqBody = None\<rparr>])"
    using a by (simp add: getPresets_def bindS_liftE_snd get_snd)
  ultimately show "getPresets E (d, issued) =
      (Inr [], d', issued @ [\<lparr>reqMethod = GET, reqPath = ''/presets'', reqBody = None\<rparr>])"
    by (simp add: prod_eq_iff)
next
  assume a: "transport E \<lparr>reqMethod = GET, reqPath = ''/sources'', reqBody = None\<rparr> d = (Response status xml, d')
      \<and> 200 \<le> status \<and> status < 300
      \<and> parseStringPromise E xml = Inr result
      \<and> getProp result ''sources'' = Inr ss \<and> ss \<noteq> JUndefined \<and> ss \<noteq> JNull
      \<and> \<not> hasChild ss ''sourceItem''"
  then have g: "fst (get E ''/sources'' (d, issued)) = Inr result"
    by (simp add: get_fst)
  from a have p: "getProp ss ''sourceItem'' = Inr JUndefined"
    by (simp add: getProp_no_child)
  have "fst (getSources E (d, issued)) = Inr []"
    using a by (simp add: getSources_def bindS_liftE_fst g p ebind_def)
  moreover have "snd (getSources E (d, issued)) =
      (d', issued @ [\<lparr>reqMethod = GET, reqPath = ''/sources'', reqBody = None\<rparr>])"
    using a by (simp add: getSources_def bindS_liftE_snd get_snd)
  ultimately show "getSources E (d, issued) =
      (Inr [], d', issued @ [\<lparr>reqMethod = GET, reqPath = ''/sources'', reqBody = None\<rparr>])"
    by (simp add: prod_eq_iff)
qed

theorem getPresets_getSources_no_child_empty_witness:
  "getPresets (scriptedEnv [Response 200 ''<presets />''] [(''<presets />'', JObject [(''presets'', JString [])])])
       (0, []) = (Inr [], 1, [\<lparr>reqMethod = GET, reqPath = ''/presets'', reqBody = None\<rparr>])
   \<and> getSources (scriptedEnv [Response 200 ''<sources deviceID=\"0\" />'']
         [(''<sources deviceID=\"0\" />'',
           JObject [(''sources'', JObject [(''$'', JObject [(''deviceID'', JString ''0'')])])])])
       (0, []) = (Inr [], 1, [\<lparr>reqMethod = GET, reqPath = ''/sources'', reqBody = None\<rparr>])"
  using getPresets_getSources_no_child_empty
     [of "scriptedEnv [Response 200 ''<presets />''] [(''<presets />'', JObject [(''presets'', JString [])])]"
         0 200 "''<presets />''" 1 "JObject [(''presets'', JString [])]" "JString []" "[]"]
   getPresets_getSources_no_child_empty
     [of "scriptedEnv [Response 200 ''<sources deviceID=\"0\" />'']
         [(''<sources deviceID=\"0\" />'',
           JObject [(''sources'', JObject [(''$'', JObject [(''deviceID'', JString ''0'')])])])]"
         0 200 "''<sources deviceID=\"0\" />''" 1
         "JObject [(''sources'', JObject [(''$'', JObject [(''deviceID'', JString ''0'')])])]"
         _ "[]" "JObject [(''$'', JObject [(''deviceID'', JString ''0'')])]"]
  by (simp add: scriptedEnv_def scriptedDevice_def tableParser_def)

lemma decode_contentObj:
  "ebind (getProp (contentObj source location sourceAccount name) ''ContentItem'') decodeContentItem =
     Inr \<lparr>ciSource = JString source, ciType = JUndefined, ciLocation = JString location,
          ciSourceAccount = JString (case sourceAccount of None \<Rightarrow> [] | Some a \<Rightarrow> a),
          ciIsPresetable = True,
          ciName = (case name of None \<Rightarrow> JUndefined
                    | Some n \<Rightarrow> if n = [] then JUndefined else JString n)\<rparr>"
  by (cases name) (simp_all add: contentObj_def decodeContentItem_def ebind_def Let_def)

lemma playContent_issued:
  "snd (snd (playContent E source location sourceAccount name (d, issued))) =
     issued @ [\<lparr>reqMethod = POST, reqPath = ''/select'',
                reqBody = (let xml = buildObject E (contentObj source location sourceAccount name)
                           in if xml = [] then None else Some xml)\<rparr>]"
  by (simp add: playContent_def Let_def bindS_unit_snd post_def bindS_liftE_snd request_snd)

text \<open>
  C6, as the specification states it, fails: \<open>playContent\<close> writes no \<open>type\<close> attribute,
  so the type of a content item does not come back. The document is taken as the object
  the builder was given, which is what the parser returns for the builder's text.
\<close>

theorem playContent_roundtrip_counterexample:
  "ebind (getProp (contentObj ''TUNEIN'' ''/v1/playback/station/s25111'' (Some ''acct'') (Some ''Radio''))
            ''ContentItem'') decodeContentItem
     \<noteq> Inr \<lparr>ciSource = JString ''TUNEIN'', ciType = JString ''stationurl'',
              ciLocation = JString ''/v1/playback/station/s25111'',
              ciSourceAccount = JString ''acct'', ciIsPresetable = True,
              ciName = JString ''Radio''\<rparr>"
  by (simp add: contentObj_def decodeContentItem_def ebind_def Let_def)

text \<open>
  C6, amended. \<open>playContent\<close> posts to \<open>/select\<close> the text the builder writes for its
  content object. Whenever the parser reads that text back as the object, decoding its
  \<open>ContentItem\<close> the way \<open>getNowPlaying\<close> and \<open>getPresets\<close> do gives the source, the
  location and the source account that were passed in, the name when it is not empty, no
  type, and \<open>isPresetable = true\<close>.
\<close>

theorem playContent_roundtrip_amended:
  "parseStringPromise E (buildObject E (contentObj source location (Some sourceAccount) (Some name)))
      = Inr (contentObj source location (Some sourceAccount) (Some name))
   \<longrightarrow>
     snd (snd (playContent E source location (Some sourceAccount) (Some name) (d, issued))) =
       issued @ [\<lparr>reqMethod = POST, reqPath = ''/select'',
                  reqBody = (let xml = buildObject E (contentObj source location (Some sourceAccount) (Some name))
                             in if xml = [] then None else Some xml)\<rparr>]
     \<and> ebind (parseStringPromise E (buildObject E (contentObj source location (Some sourceAccount) (Some name))))
          (\<lambda>doc. ebind (getProp doc ''ContentItem'') decodeContentItem) =
        Inr \<lparr>ciSource = JString source, ciType = JUndefined, ciLocation = JString location,
             ciSourceAccount = JString sourceAccount, ciIsPresetable = True,
             ciName = (if name = [] then JUndefined else JString name)\<rparr>"
proof
  assume rt: "parseStringPromise E (buildObject E (contentObj source location (Some sourceAccount) (Some name)))
      = Inr (contentObj source location (Some sourceAccount) (Some name))"
  have "ebind (parseStringPromise E (buildObject E (contentObj source location (Some sourceAccount) (Some name))))
          (\<lambda>doc. ebind (getProp doc ''ContentItem'') decodeContentItem) =
        ebind (getProp (contentObj source location (Some sourceAccount) (Some name)) ''ContentItem'')
          decodeContentItem"
    by (simp add: rt ebind_def)
  then show "snd (snd (playContent E source location (Some sourceAccount) (Some name) (d, issued))) =
       issued @ [\<lparr>reqMethod = POST, reqPath = ''/select'',
                  reqBody = (let xml = buildObject E (contentObj source location (Some sourceAccount) (Some name))
                             in if xml = [] then None else Some xml)\<rparr>]
     \<and> ebind (parseStringPromise E (buildObject E (contentObj source location (Some sourceAccount) (Some name))))
          (\<lambda>doc. ebind (getProp doc ''ContentItem'') decodeContentItem) =
        Inr \<lparr>ciSource = JString source, ciType = JUndefined, ciLocation = JString location,
             ciSourceAccount = JString sourceAccount, ciIsPresetable = True,
             ciName = (if name = [] then JUndefined else JString name)\<rparr>"
    by (simp add: playContent_issued decode_contentObj)
qed

theorem playContent_roundtrip_amended_witness:
  "(let E = scriptedEnv [Response 200 ''<status>/select</status>'']
              [(''<doc/>'', contentObj ''TUNEIN'' ''/v1/playback/station/s25111'' (Some ''acct'') (Some ''Radio''))]
    in snd (snd (playContent E ''TUNEIN'' ''/v1/playback/station/s25111'' (Some ''acct'') (Some ''Radio'') (0, [])))
         = [\<lparr>reqMethod = POST, reqPath = ''/select'', reqBody = Some ''<doc/>''\<rparr>]
       \<and> ebind (parseStringPromise E ''<doc/>'') (\<lambda>doc. ebind (getProp doc ''ContentItem'') decodeContentItem) =
          Inr \<lparr>ciSource = JString ''TUNEIN'', ciType = JUndefined,
               ciLocation = JString ''/v1/playback/station/s25111'',
               ciSourceAccount = JString ''acct'', ciIsPresetable = True, ciName = JString ''Radio''\<rparr>)"
  using playContent_roundtrip_amended
    [of "scriptedEnv [Response 200 ''<status>/select</status>'']
              [(''<doc/>'', contentObj ''TUNEIN'' ''/v1/playback/station/s25111'' (Some ''acct'') (Some ''Radio''))]"
        "''TUNEIN''" "''/v1/playback/station/s25111''" "''acct''" "''Radio''" 0 "[]"]
  by (simp add: scriptedEnv_def tableParser_def Let_def)

subsection \<open>EventStream\<close>

text \<open>
  C3. A frame that the XML parser rejects makes the message handler emit no event, and the
  stream that receives it stays exactly as it was: its connection fields, its sockets and
  its timers are untouched, so nothing is scheduled.
\<close>

theorem malformed_frame_dropped:
  "parseStringPromise E frame = Inl e \<longrightarrow>
     handleMessage E frame = [] \<and> onMessage E frame s = s \<and> step E (SockMessage i frame) s = s"
  by (simp add: handleMessage_def onMessage_def)

theorem malformed_frame_dropped_witness:
  "(let E = scriptedEnv [] [];
        s = run E [Connect, SockOpen 0] (newStream True)
    in parseStringPromise E ''<updates><volumeUpdated>'' = Inl (ParseError ''<updates><volumeUpdated>'')
       \<and> sockets s = [OPEN]
       \<and> handleMessage E ''<updates><volumeUpdated>'' = []
       \<and> step E (SockMessage 0 ''<updates><volumeUpdated>'') s = s)"
proof -
  define E :: "nat env" where "E = scriptedEnv [] []"
  define s where "s = run E [Connect, SockOpen 0] (newStream True)"
  have p: "parseStringPromise E ''<updates><volumeUpdated>'' = Inl (ParseError ''<updates><volumeUpdated>'')"
    by (simp add: E_def scriptedEnv_def tableParser_def)
  have o: "sockets s = [OPEN]"
    by (simp add: s_def newStream_def connect_def onOpen_def startPing_def emit_def Let_def)
  from malformed_frame_dropped[of E "''<updates><volumeUpdated>''" _ s 0] p o
  show ?thesis
    unfolding E_def[symmetric] s_def[symmetric] Let_def by simp
qed

lemma empty_frame_dropped:
  "parseStringPromise E frame = Inr JNull \<Longrightarrow> handleMessage E frame = []"
  by (simp add: handleMessage_def)

text \<open>A frame that parses but whose later part lacks the expected structure is dropped
  from that part on: what the earlier blocks emitted stays emitted.\<close>

lemma handleMessage_stops_at_first_exception:
  "parseStringPromise E frame =
     Inr (JObject [(''updates'', JObject
        [(''volumeUpdated'', JObject [(''volume'', JObject [(''targetvolume'', JString ''20''),
            (''actualvolume'', JString ''20''), (''muteenabled'', JString ''false'')])]),
         (''nowPlayingUpdated'', JString ''x'')])])
   \<Longrightarrow> handleMessage E frame =
         [VolumeUpdated \<lparr>vuTargetvolume = parseInt (JString ''20''),
                          vuActualvolume = parseInt (JString ''20''), vuMuteenabled = False\<rparr>]"
  by (simp add: handleMessage_def volumeBlock_def nowPlayingBlock_def ebind_def)

lemma parseInt_20: "parseInt (JString ''20'') = Finite 20"
  by (simp add: parseInt_def Let_def isWhiteSpace_def isDigit_def digitsValue_def)

lemma parseInt_neg: "parseInt (JString '' -7px'') = Finite (- 7)"
  by (simp add: parseInt_def Let_def isWhiteSpace_def isDigit_def digitsValue_def)

lemma parseInt_undefined: "parseInt JUndefined = NaN"
  by (simp add: parseInt_def Let_def isWhiteSpace_def isDigit_def digitsValue_def)

lemma timerInv_cleanup: "timerInv s \<Longrightarrow> timerInv (cleanup s)"
  by (auto simp: timerInv_def cleanup_def Let_def split: option.splits)

lemma timerInv_scheduleReconnect: "timerInv s \<Longrightarrow> timerInv (scheduleReconnect s)"
  by (auto simp: timerInv_def scheduleReconnect_def split: option.splits)

lemma timerInv_emit: "timerInv (emit ev s) = timerInv s"
  by (simp add: timerInv_def emit_def)

lemma timerInv_connect: "timerInv s \<Longrightarrow> timerInv (connect s)"
  by (auto simp: timerInv_def connect_def scheduleReconnect_def emit_def Let_def split: option.splits)

lemma timerInv_disconnect: "timerInv s \<Longrightarrow> timerInv (disconnect s)"
proof -
  assume a: "timerInv s"
  then have "timerInv (s\<lparr>shouldReconnect := False\<rparr>)" by (simp add: timerInv_def)
  then have c: "timerInv (cleanup (s\<lparr>shouldReconnect := False\<rparr>))" by (rule timerInv_cleanup)
  then show ?thesis
    by (simp add: disconnect_def Let_def split: option.splits) (simp add: timerInv_def)
qed

lemma timerInv_onOpen: "timerInv s \<Longrightarrow> timerInv (onOpen s)"
  by (simp add: timerInv_def onOpen_def startPing_def emit_def)

lemma timerInv_onClose: "timerInv s \<Longrightarrow> timerInv (onClose s)"
proof -
  assume a: "timerInv s"
  then have "timerInv (s\<lparr>isConnecting := False\<rparr>)" by (simp add: timerInv_def)
  then have "timerInv (cleanup (s\<lparr>isConnecting := False\<rparr>))" by (rule timerInv_cleanup)
  then show ?thesis
    by (simp add: onClose_def timerInv_scheduleReconnect timerInv_emit)
qed

lemma timerInv_reconnectTimerFired:
  "timerInv s \<Longrightarrow> h \<in> set (timeouts s) \<Longrightarrow>
   timerInv (reconnectTimerFired (s\<lparr>timeouts := removeAll h (timeouts s)\<rparr>))"
proof -
  assume a: "timerInv s" and h: "h \<in> set (timeouts s)"
  then have "timerInv (s\<lparr>timeouts := removeAll h (timeouts s), reconnectTimer := None, ws := None\<rparr>)"
    by (auto simp: timerInv_def split: option.splits)
  then show ?thesis
    by (simp add: reconnectTimerFired_def timerInv_connect)
qed

lemma timerInv_step: "timerInv s \<Longrightarrow> timerInv (step E i s)"
proof (cases i)
  case Connect then show "timerInv s \<Longrightarrow> ?thesis" by (simp add: timerInv_connect)
next
  case Disconnect then show "timerInv s \<Longrightarrow> ?thesis" by (simp add: timerInv_disconnect)
next
  case (SockOpen n)
  assume a: "timerInv s"
  then have "timerInv (s\<lparr>sockets := (sockets s)[n := OPEN]\<rparr>)" by (simp add: timerInv_def)
  with a SockOpen show ?thesis by (simp add: timerInv_onOpen)
next
  case (SockMessage n d)
  then show "timerInv s \<Longrightarrow> ?thesis" by (simp add: onMessage_def timerInv_def)
next
  case (SockError n)
  then show "timerInv s \<Longrightarrow> ?thesis" by (simp add: onError_def timerInv_emit)
next
  case (SockClose n)
  assume a: "timerInv s"
  then have "timerInv (s\<lparr>sockets := (sockets s)[n := CLOSED]\<rparr>)" by (simp add: timerInv_def)
  with a SockClose show ?thesis by (simp add: timerInv_onClose)
next
  case (TimeoutFires h)
  then show "timerInv s \<Longrightarrow> ?thesis" by (simp add: timerInv_reconnectTimerFired)
next
  case (IntervalFires h)
  then show "timerInv s \<Longrightarrow> ?thesis"
    by (simp add: pingTick_def timerInv_def split: option.splits)
qed

lemma timerInv_run: "timerInv s \<Longrightarrow> timerInv (run E is s)"
  by (induction "is" arbitrary: s) (simp_all add: timerInv_step)

lemma timerInv_newStream: "timerInv (newStream valid)"
  by (simp add: timerInv_def newStream_def)

lemma reachable_timerInv: "reachable E s \<Longrightarrow> timerInv s"
  by (auto simp: reachable_def timerInv_run timerInv_newStream)

lemma reachable_one_timer: "reachable E s \<Longrightarrow> length (timeouts s) \<le> 1"
  by (drule reachable_timerInv) (simp add: timerInv_def split: option.splits)












lemma atRest_step:
  "atRest s \<Longrightarrow> i \<noteq> Connect \<Longrightarrow>
   atRest (step E i s) \<and> length (sockets (step E i s)) = length (sockets s)"
proof (cases i)
  case Connect then show "i \<noteq> Connect \<Longrightarrow> ?thesis" by simp
next
  case Disconnect
  then show "atRest s \<Longrightarrow> ?thesis"
    by (simp add: atRest_def disconnect_def cleanup_def Let_def split: option.splits)
next
  case (SockOpen n)
  then show "atRest s \<Longrightarrow> ?thesis"
    by (simp add: atRest_def onOpen_def startPing_def emit_def)
next
  case (SockMessage n d)
  then show "atRest s \<Longrightarrow> ?thesis" by (simp add: atRest_def onMessage_def)
next
  case (SockError n)
  then show "atRest s \<Longrightarrow> ?thesis" by (simp add: atRest_def onError_def emit_def)
next
  case (SockClose n)
  then show "atRest s \<Longrightarrow> ?thesis"
    by (simp add: atRest_def onClose_def scheduleReconnect_def emit_def cleanup_def Let_def
        split: option.splits)
next
  case (TimeoutFires h)
  then show "atRest s \<Longrightarrow> ?thesis" by (simp add: atRest_def)
next
  case (IntervalFires h)
  then show "atRest s \<Longrightarrow> ?thesis" by (simp add: atRest_def pingTick_def split: option.splits)
qed

lemma atRest_run:
  "atRest s \<Longrightarrow> Connect \<notin> set is \<Longrightarrow>
   atRest (run E is s) \<and> length (sockets (run E is s)) = length (sockets s)"
proof (induction "is" arbitrary: s)
  case Nil
  then show ?case by simp
next
  case (Cons i "is")
  from Cons.prems have i: "i \<noteq> Connect" and rest: "Connect \<notin> set is" by auto
  from atRest_step[OF Cons.prems(1) i, of E]
  have a: "atRest (step E i s)" and l: "length (sockets (step E i s)) = length (sockets s)"
    by simp_all
  from Cons.IH[OF a rest] l show ?case by simp
qed

lemma atRest_disconnect: "timerInv s \<Longrightarrow> atRest (disconnect s)"
  by (auto simp: timerInv_def atRest_def disconnect_def cleanup_def Let_def split: option.splits)

lemma length_sockets_disconnect: "length (sockets (disconnect s)) = length (sockets s)"
  by (simp add: disconnect_def cleanup_def closeSocket_def Let_def split: option.splits)

lemmas stream_eval =
  newStream_def connect_def disconnect_def cleanup_def scheduleReconnect_def startPing_def
  emit_def onOpen_def onClose_def onError_def onMessage_def reconnectTimerFired_def pingTick_def
  closeSocket_def Let_def

text \<open>
  C7. The stream is meant to hold one connection attempt at a time, and it does not: the
  \<open>close\<close> listener of a socket that \<open>disconnect\<close> has let go still clears
  \<open>isConnecting\<close> and schedules a reconnect, and the timer then drops the socket of the
  later \<open>connect\<close> without closing it and opens another. After \<open>connect\<close>, \<open>open\<close>,
  \<open>disconnect\<close>, \<open>connect\<close>, the \<open>close\<close> of the first socket and the timer, two
  sockets are connecting at once.
\<close>

theorem stale_close_opens_second_attempt:
  "sockets (run (scriptedEnv [] []) [Connect, SockOpen 0, Disconnect, Connect] (newStream True))
     = [CLOSING, CONNECTING]
   \<and> sockets (run (scriptedEnv [] [])
        [Connect, SockOpen 0, Disconnect, Connect, SockClose 0, TimeoutFires 1] (newStream True))
     = [CLOSED, CONNECTING, CONNECTING]
   \<and> attemptsInFlight (run (scriptedEnv [] [])
        [Connect, SockOpen 0, Disconnect, Connect, SockClose 0, TimeoutFires 1] (newStream True)) = 2"
  by (simp add: stream_eval attemptsInFlight_def)

text \<open>The two other parts of C7 hold: a reachable stream has at most one pending timeout
  (\<open>reachable_one_timer\<close>), and \<open>connect\<close> on a stream that holds a socket or is
  connecting changes nothing (\<open>connect_noop\<close>).\<close>

text \<open>
  C8, as the specification states it, fails: \<open>disconnect\<close> is not final. After a later
  \<open>connect\<close>, the \<open>close\<close> event of the new socket schedules a reconnect again, and the
  timer opens a third socket by itself.
\<close>

theorem reconnect_after_disconnect_counterexample:
  "timeouts (run (scriptedEnv [] [])
       [Connect, SockOpen 0, Disconnect, Connect, SockOpen 1, SockClose 1] (newStream True)) = [2]
   \<and> sockets (run (scriptedEnv [] [])
       [Connect, SockOpen 0, Disconnect, Connect, SockOpen 1, SockClose 1] (newStream True))
     = [CLOSING, CLOSED]
   \<and> sockets (run (scriptedEnv [] [])
       [Connect, SockOpen 0, Disconnect, Connect, SockOpen 1, SockClose 1, TimeoutFires 2]
       (newStream True))
     = [CLOSING, CLOSED, CONNECTING]"
  by (simp add: stream_eval)

text \<open>
  C8, amended. In every reachable state, \<open>disconnect\<close> cancels the pending reconnect
  timeout, and as long as \<open>connect\<close> is not called again, whatever the sockets and the
  timers do afterwards, reconnection stays off, no timeout is pending, the stream holds no
  socket and no socket is constructed.
\<close>

theorem disconnect_stops_reconnection:
  "reachable E s \<and> Connect \<notin> set ins \<longrightarrow>
     \<not> shouldReconnect (run E ins (disconnect s))
     \<and> reconnectTimer (run E ins (disconnect s)) = None
     \<and> timeouts (run E ins (disconnect s)) = []
     \<and> ws (run E ins (disconnect s)) = None
     \<and> length (sockets (run E ins (disconnect s))) = length (sockets s)"
proof
  assume a: "reachable E s \<and> Connect \<notin> set ins"
  then have "atRest (disconnect s)"
    by (blast intro: atRest_disconnect reachable_timerInv)
  from atRest_run[OF this, of ins E] a
  show "\<not> shouldReconnect (run E ins (disconnect s))
     \<and> reconnectTimer (run E ins (disconnect s)) = None
     \<and> timeouts (run E ins (disconnect s)) = []
     \<and> ws (run E ins (disconnect s)) = None
     \<and> length (sockets (run E ins (disconnect s))) = length (sockets s)"
    by (simp add: atRest_def length_sockets_disconnect)
qed

theorem disconnect_stops_reconnection_witness:
  "timeouts (run (scriptedEnv [] []) [Connect, SockClose 0] (newStream True)) = [0]
   \<and> reachable (scriptedEnv [] []) (run (scriptedEnv [] []) [Connect, SockClose 0] (newStream True))
   \<and> Connect \<notin> set [TimeoutFires 0, SockError 0, SockClose 0, SockOpen 0]
   \<and> timeouts (run (scriptedEnv [] []) [TimeoutFires 0, SockError 0, SockClose 0, SockOpen 0]
        (disconnect (run (scriptedEnv [] []) [Connect, SockClose 0] (newStream True)))) = []
   \<and> length (sockets (run (scriptedEnv [] []) [TimeoutFires 0, SockError 0, SockClose 0, SockOpen 0]
        (disconnect (run (scriptedEnv [] []) [Connect, SockClose 0] (newStream True))))) = 1"
proof -
  have r: "reachable (scriptedEnv [] []) (run (scriptedEnv [] []) [Connect, SockClose 0] (newStream True))"
    unfolding reachable_def by blast
  have t: "timeouts (run (scriptedEnv [] []) [Connect, SockClose 0] (newStream True)) = [0]"
    by (simp add: stream_eval)
  have l: "length (sockets (run (scriptedEnv [] []) [Connect, SockClose 0] (newStream True))) = 1"
    by (simp add: stream_eval)
  have c: "Connect \<notin> set [TimeoutFires 0, SockError 0, SockClose 0, SockOpen 0]"
    by simp
  from disconnect_stops_reconnection
    [of "scriptedEnv [] []" "run (scriptedEnv [] []) [Connect, SockClose 0] (newStream True)"
        "[TimeoutFires 0, SockError 0, SockClose 0, SockOpen 0]"] r c t l
  show ?thesis by simp
qed




subsection \<open>Discovery\<close>

text \<open>
  C5, as the specification states it, fails: discovery never takes the advertised host
  name. A service whose only address is an IPv6 one is recorded under that address, and a
  service without addresses is not recorded at all.
\<close>

theorem discovery_hostname_fallback_counterexample:
  "map devHost (found (handleServiceUp
       \<lparr>svcName = ''Kitchen'', svcHost = ''kitchen.local'', svcPort = 8090,
        svcAddresses = Some [''fe80::1''], svcTxtMAC = None\<rparr>
       \<lparr>devices = [], found = [], lost = []\<rparr>)) = [''fe80::1'']
   \<and> map devHost (discoverOnce
       [\<lparr>svcName = ''Kitchen'', svcHost = ''kitchen.local'', svcPort = 8090,
         svcAddresses = Some [''fe80::1''], svcTxtMAC = None\<rparr>]) = [''fe80::1'']
   \<and> discoverOnce
       [\<lparr>svcName = ''Kitchen'', svcHost = ''kitchen.local'', svcPort = 8090,
         svcAddresses = Some [], svcTxtMAC = None\<rparr>] = []"
  by (simp add: handleServiceUp_def discoverOnce_def discoverOnceUp_def Let_def)

text \<open>
  C5, amended. For a service that advertises one or more addresses, both the continuous
  session and \<open>discoverOnce\<close> record a device whose host is one of the advertised
  addresses: the first address without a colon when there is one (and it is not the empty
  string), the first address otherwise. A service that advertises no address is ignored;
  the advertised host name is not used.
\<close>

theorem discovery_selects_address:
  "(svcAddresses svc = Some addrs \<and> addrs \<noteq> [] \<longrightarrow>
      (\<exists>h. discoverOnce [svc] =
               [\<lparr>devName = svcName svc, devHost = h,
                 devPort = (if svcPort svc \<noteq> 0 then svcPort svc else 8090),
                 devMac = svcTxtMAC svc\<rparr>]
         \<and> found (handleServiceUp svc \<lparr>devices = [], found = [], lost = []\<rparr>) = discoverOnce [svc]
         \<and> h \<in> set addrs
         \<and> (\<forall>a. find (\<lambda>addr. CHR '':'' \<notin> set addr) addrs = Some a \<and> a \<noteq> [] \<longrightarrow> h = a)
         \<and> (find (\<lambda>addr. CHR '':'' \<notin> set addr) addrs = None
              \<or> find (\<lambda>addr. CHR '':'' \<notin> set addr) addrs = Some [] \<longrightarrow> h = hd addrs)))
   \<and> (svcAddresses svc = None \<or> svcAddresses svc = Some [] \<longrightarrow>
        discoverOnce [svc] = [] \<and> handleServiceUp svc s = s)"
proof (intro conjI impI)
  assume a: "svcAddresses svc = Some addrs \<and> addrs \<noteq> []"
  then obtain first others where addrs: "addrs = first # others"
    by (cases addrs) auto
  define h where "h = (case find (\<lambda>addr. CHR '':'' \<notin> set addr) addrs of
                         Some addr \<Rightarrow> if addr \<noteq> [] then addr else first
                       | None \<Rightarrow> first)"
  have d: "discoverOnce [svc] =
               [\<lparr>devName = svcName svc, devHost = h,
                 devPort = (if svcPort svc \<noteq> 0 then svcPort svc else 8090),
                 devMac = svcTxtMAC svc\<rparr>]"
    using a by (simp add: discoverOnce_def discoverOnceUp_def Let_def addrs h_def)
  have f: "found (handleServiceUp svc \<lparr>devices = [], found = [], lost = []\<rparr>) = discoverOnce [svc]"
    using a unfolding d by (simp add: handleServiceUp_def Let_def addrs h_def)
  have m: "h \<in> set addrs"
  proof (cases "find (\<lambda>addr. CHR '':'' \<notin> set addr) addrs")
    case None
    then show ?thesis by (simp add: h_def addrs)
  next
    case (Some x)
    then have "x \<in> set addrs" by (auto simp: find_Some_iff)
    with Some show ?thesis by (simp add: h_def addrs)
  qed
  have p: "\<forall>a. find (\<lambda>addr. CHR '':'' \<notin> set addr) addrs = Some a \<and> a \<noteq> [] \<longrightarrow> h = a"
    by (simp add: h_def)
  have q: "find (\<lambda>addr. CHR '':'' \<notin> set addr) addrs = None
              \<or> find (\<lambda>addr. CHR '':'' \<notin> set addr) addrs = Some [] \<longrightarrow> h = hd addrs"
    by (auto simp: h_def addrs)
  from d f m p q
  show "\<exists>h. discoverOnce [svc] =
               [\<lparr>devName = svcName svc, devHost = h,
                 devPort = (if svcPort svc \<noteq> 0 then svcPort svc else 8090),
                 devMac = svcTxtMAC svc\<rparr>]
         \<and> found (handleServiceUp svc \<lparr>devices = [], found = [], lost = []\<rparr>) = discoverOnce [svc]
         \<and> h \<in> set addrs
         \<and> (\<forall>a. find (\<lambda>addr. CHR '':'' \<notin> set addr) addrs = Some a \<and> a \<noteq> [] \<longrightarrow> h = a)
         \<and> (find (\<lambda>addr. CHR '':'' \<notin> set addr) addrs = None
              \<or> find (\<lambda>addr. CHR '':'' \<notin> set addr) addrs = Some [] \<longrightarrow> h = hd addrs)"
    by blast
next
  assume "svcAddresses svc = None \<or> svcAddresses svc = Some []"
  then show "discoverOnce [svc] = []"
    by (auto simp: discoverOnce_def discoverOnceUp_def)
next
  assume "svcAddresses svc = None \<or> svcAddresses svc = Some []"
  then show "handleServiceUp svc s = s"
    by (auto simp: handleServiceUp_def)
qed

theorem discovery_selects_address_witness:
  "map devHost (discoverOnce
       [\<lparr>svcName = ''Kitchen'', svcHost = ''kitchen.local'', svcPort = 0,
         svcAddresses = Some [''fe80::1'', ''192.168.1.20'', ''10.0.0.5''], svcTxtMAC = Some ''AABBCC''\<rparr>])
     = [''192.168.1.20'']
   \<and> map devHost (discoverOnce
       [\<lparr>svcName = ''Kitchen'', svcHost = ''kitchen.local'', svcPort = 0,
         svcAddresses = Some [''fe80::1'', ''fe80::2''], svcTxtMAC = None\<rparr>])
     = [''fe80::1'']"
proof -
  have f1: "find (\<lambda>addr. CHR '':'' \<notin> set addr) [''fe80::1'', ''192.168.1.20'', ''10.0.0.5'']
             = Some ''192.168.1.20''"
    by simp
  have f2: "find (\<lambda>addr. CHR '':'' \<notin> set addr) [''fe80::1'', ''fe80::2''] = None"
    by simp
  from discovery_selects_address
    [of "\<lparr>svcName = ''Kitchen'', svcHost = ''kitchen.local'', svcPort = 0,
         svcAddresses = Some [''fe80::1'', ''192.168.1.20'', ''10.0.0.5''], svcTxtMAC = Some ''AABBCC''\<rparr>"
        "[''fe80::1'', ''192.168.1.20'', ''10.0.0.5'']"]
  have a: "map devHost (discoverOnce
       [\<lparr>svcName = ''Kitchen'', svcHost = ''kitchen.local'', svcPort = 0,
         svcAddresses = Some [''fe80::1'', ''192.168.1.20'', ''10.0.0.5''], svcTxtMAC = Some ''AABBCC''\<rparr>])
     = [''192.168.1.20'']"
    unfolding f1 by auto
  from discovery_selects_address
    [of "\<lparr>svcName = ''Kitchen'', svcHost = ''kitchen.local'', svcPort = 0,
         svcAddresses = Some [''fe80::1'', ''fe80::2''], svcTxtMAC = None\<rparr>"
        "[''fe80::1'', ''fe80::2'']"]
  have b: "map devHost (discoverOnce
       [\<lparr>svcName = ''Kitchen'', svcHost = ''kitchen.local'', svcPort = 0,
         svcAddresses = Some [''fe80::1'', ''fe80::2''], svcTxtMAC = None\<rparr>])
     = [''fe80::1'']"
    unfolding f2 by auto
  from a b show ?thesis by simp
qed

end
